theory Spec2Isabelle
  imports Complex_Main "HOL-Library.Sublist"
begin

section \<open>Conventions of the embedding\<close>

text \<open>
  The Python sources \<^verbatim>\<open>src/q_learning_framework.py\<close>, \<^verbatim>\<open>src/learning_environment.py\<close>
  and \<^verbatim>\<open>src/agents/student_agent.py\<close> are embedded as HOL functions.

  \<^item> Python \<^verbatim>\<open>float\<close> values (Q-values, rewards, hyperparameters) are modelled as
    \<^typ>\<open>real\<close>: the arithmetic is exact and rounding is not modelled.
  \<^item> Python \<^verbatim>\<open>str\<close> values are modelled as \<^typ>\<open>string\<close>.
  \<^item> A raised exception is the \<open>Inl\<close> branch of a sum type.
  \<^item> Calls to \<^verbatim>\<open>logging\<close> have no effect on the program state and are left out.
\<close>

datatype py_error = ZeroDivisionError | IndexError | ValueError

section \<open>The tabular policy: \<^verbatim>\<open>QLearningFramework\<close>\<close>

text \<open>
  \<^verbatim>\<open>self.q_table\<close> is a dictionary keyed by \<^verbatim>\<open>(state, action)\<close> tuples; states and
  actions are strings in this system (the state is the topic name).
\<close>

record QLearningFramework =
  q_table :: "(string \<times> string) \<rightharpoonup> real"
  actions :: "string list"
  alpha :: real
  gamma :: real
  epsilon :: real

text \<open>\<^verbatim>\<open>__init__(actions, alpha=0.1, gamma=0.9, epsilon=0.1)\<close>: the table starts empty.\<close>

definition init_QLearningFramework :: "string list \<Rightarrow> real \<Rightarrow> real \<Rightarrow> real \<Rightarrow> QLearningFramework" where
  "init_QLearningFramework acts al ga ep =
     \<lparr>q_table = Map.empty, actions = acts, alpha = al, gamma = ga, epsilon = ep\<rparr>"

text \<open>\<^verbatim>\<open>_get_q_value\<close>: \<^verbatim>\<open>self.q_table.get((state, action), 0.0)\<close>.\<close>

definition get_q_value :: "QLearningFramework \<Rightarrow> string \<Rightarrow> string \<Rightarrow> real" where
  "get_q_value ql s a = (case q_table ql (s, a) of None \<Rightarrow> 0 | Some v \<Rightarrow> v)"

text \<open>
  Python's builtin \<^verbatim>\<open>max\<close> on a sequence: it raises \<^verbatim>\<open>ValueError\<close> on an empty
  sequence and otherwise scans from the left, keeping the larger value.
\<close>

fun py_max :: "real list \<Rightarrow> py_error + real" where
  "py_max [] = Inl ValueError"
| "py_max (x # xs) = Inr (foldl max x xs)"

fun py_min :: "real list \<Rightarrow> py_error + real" where
  "py_min [] = Inl ValueError"
| "py_min (x # xs) = Inr (foldl min x xs)"

text \<open>
  Truthiness of \<^verbatim>\<open>next_state\<close> in \<^verbatim>\<open>if next_state:\<close>. The argument is either
  \<^verbatim>\<open>None\<close> (a terminal transition) or a string; \<^verbatim>\<open>None\<close> and the empty string are
  falsy.
\<close>

fun truthy_state :: "string option \<Rightarrow> bool" where
  "truthy_state None = False"
| "truthy_state (Some s) = (s \<noteq> [])"

text \<open>
  The value \<^verbatim>\<open>max_next_q\<close> computed in \<^verbatim>\<open>update_q_value\<close>: it starts at \<^verbatim>\<open>0.0\<close>
  and is overwritten only if \<^verbatim>\<open>next_state\<close> is truthy and the list of Q-values over
  \<^verbatim>\<open>self.actions\<close> is non-empty.
\<close>

definition max_next_q :: "QLearningFramework \<Rightarrow> string option \<Rightarrow> real" where
  "max_next_q ql next_state =
     (case next_state of
        None \<Rightarrow> 0
      | Some ns \<Rightarrow>
          if ns \<noteq> [] then
            (let q_values_for_next_state = map (get_q_value ql ns) (actions ql)
             in case py_max q_values_for_next_state of
                  Inl _ \<Rightarrow> 0
                | Inr m \<Rightarrow> m)
          else 0)"

text \<open>
  \<^verbatim>\<open>update_q_value(state, action, reward, next_state)\<close>. The method mutates
  \<^verbatim>\<open>self.q_table\<close> in place; the model returns the updated policy object.
\<close>

definition update_q_value ::
  "QLearningFramework \<Rightarrow> string \<Rightarrow> string \<Rightarrow> real \<Rightarrow> string option \<Rightarrow> QLearningFramework" where
  "update_q_value ql s a r next_state =
     (let current_q = get_q_value ql s a;
          new_q = current_q + alpha ql * (r + gamma ql * max_next_q ql next_state - current_q)
      in ql\<lparr>q_table := (q_table ql)((s, a) \<mapsto> new_q)\<rparr>)"

section \<open>The reward extractor\<close>

text \<open>
  Python's \<^verbatim>\<open>needle in haystack\<close> on strings: the needle occurs as a contiguous
  substring, compared character by character (case-sensitively).
\<close>

fun starts_with :: "string \<Rightarrow> string \<Rightarrow> bool" where
  "starts_with hay [] = True"
| "starts_with [] (c # cs) = False"
| "starts_with (h # hs) (c # cs) = (h = c \<and> starts_with hs cs)"

fun str_in :: "string \<Rightarrow> string \<Rightarrow> bool" where
  "str_in needle [] = (needle = [])"
| "str_in needle (h # hs) = (starts_with (h # hs) needle \<or> str_in needle hs)"

text \<open>
  \<^verbatim>\<open>str.lower()\<close> on the ASCII range: the letters \<^verbatim>\<open>A\<close> to \<^verbatim>\<open>Z\<close> are mapped to
  \<^verbatim>\<open>a\<close> to \<^verbatim>\<open>z\<close>, every other character is kept. (Python lowercases Unicode text;
  characters outside ASCII are not modelled.)
\<close>

definition lower_char :: "char \<Rightarrow> char" where
  "lower_char c =
     (case map_of (zip ''ABCDEFGHIJKLMNOPQRSTUVWXYZ'' ''abcdefghijklmnopqrstuvwxyz'') c of
        None \<Rightarrow> c
      | Some l \<Rightarrow> l)"

definition lower :: "string \<Rightarrow> string" where
  "lower s = map lower_char s"

text \<open>
  \<^verbatim>\<open>LearningEnvironment._get_reward_from_feedback\<close>. The four \<^verbatim>\<open>if\<close> statements run
  in sequence, each adding to the local \<^verbatim>\<open>reward\<close>.
\<close>

definition get_reward_from_feedback :: "string \<Rightarrow> real" where
  "get_reward_from_feedback feedback =
     (let feedback_lower = lower feedback;
          r = 0;
          r = (if str_in ''correct'' feedback_lower \<and> \<not> str_in ''incorrect'' feedback_lower
               then r + 1 else r);
          r = (if str_in ''incorrect'' feedback_lower then r - 1 else r);
          r = (if str_in ''strengths'' feedback_lower then r + 1 / 2 else r);
          r = (if str_in ''improvement'' feedback_lower then r - 1 / 2 else r)
      in r)"

section \<open>Action selection\<close>

text \<open>
  The outside world of the program: the state of Python's \<^verbatim>\<open>random\<close> module and of the
  language-model service behind both agents. It is a value of an arbitrary type \<open>'w\<close>
  threaded through every call that consults it. The operations on it are the fields of a
  record of collaborators, so that every theorem holds for every behaviour of the
  generator and of the service.

  \<^item> \<open>random_uniform\<close> is \<^verbatim>\<open>random.uniform(0, 1)\<close>.
  \<^item> \<open>random_choice n\<close> is the draw made by \<^verbatim>\<open>random.choice\<close> on a sequence of
    length \<open>n\<close>; the model reduces it modulo \<open>n\<close>, so every draw is an index of the
    sequence and every index can be drawn.
  \<^item> \<open>teacher_generate_learning_material\<close>, \<open>teacher_evaluate_student_response\<close>,
    \<open>teacher_synthesize_new_topic\<close> and \<open>teacher_evolve\<close> are the methods of
    \<^verbatim>\<open>TeacherAgent\<close>, whose module is not among the sources; they are parameters.
  \<^item> \<open>ollama_generate_response\<close> is \<^verbatim>\<open>OllamaClient.generate_response\<close> as the student
    calls it (with its own model name); it returns \<^verbatim>\<open>None\<close> or a text.
  \<^item> \<open>format_2f\<close> renders a float with the format specification \<^verbatim>\<open>:.2f\<close>.
\<close>

record 'w collaborators =
  teacher_generate_learning_material :: "string \<Rightarrow> string \<Rightarrow> 'w \<Rightarrow> string \<times> 'w"
  teacher_evaluate_student_response :: "string \<Rightarrow> string \<Rightarrow> 'w \<Rightarrow> string \<times> 'w"
  teacher_synthesize_new_topic :: "string \<Rightarrow> string \<Rightarrow> 'w \<Rightarrow> string \<times> 'w"
  teacher_evolve :: "real \<Rightarrow> 'w \<Rightarrow> 'w"
  ollama_generate_response :: "string \<Rightarrow> 'w \<Rightarrow> string option \<times> 'w"
  random_uniform :: "'w \<Rightarrow> real \<times> 'w"
  random_choice :: "nat \<Rightarrow> 'w \<Rightarrow> nat \<times> 'w"
  format_2f :: "real \<Rightarrow> string"

text \<open>\<^verbatim>\<open>random.choice(seq)\<close>: \<^verbatim>\<open>IndexError\<close> on an empty sequence.\<close>

definition py_random_choice :: "'w collaborators \<Rightarrow> 'a list \<Rightarrow> 'w \<Rightarrow> py_error + ('a \<times> 'w)" where
  "py_random_choice ext xs w =
     (if xs = [] then Inl IndexError
      else (let (k, w') = random_choice ext (length xs) w
            in Inr (xs ! (k mod length xs), w')))"

text \<open>
  The keys of the dictionary built by a comprehension over a list, in iteration order: a
  key that occurs again keeps the position of its first occurrence.
\<close>

fun dict_keys :: "'a list \<Rightarrow> 'a list" where
  "dict_keys [] = []"
| "dict_keys (x # xs) = x # dict_keys (removeAll x xs)"

text \<open>
  The exploitation branch of \<^verbatim>\<open>choose_action\<close> up to the random tie-break: the
  dictionary \<^verbatim>\<open>q_values_for_state\<close>, its maximum and the list \<^verbatim>\<open>best_actions\<close>.
\<close>

definition q_values_for_state :: "QLearningFramework \<Rightarrow> string \<Rightarrow> (string \<times> real) list" where
  "q_values_for_state ql s = map (\<lambda>a. (a, get_q_value ql s a)) (dict_keys (actions ql))"

definition best_actions :: "QLearningFramework \<Rightarrow> string \<Rightarrow> py_error + string list" where
  "best_actions ql s =
     (case py_max (map snd (q_values_for_state ql s)) of
        Inl e \<Rightarrow> Inl e
      | Inr max_q \<Rightarrow> Inr (map fst (filter (\<lambda>(a, q_value). q_value = max_q) (q_values_for_state ql s))))"

text \<open>\<^verbatim>\<open>choose_action(state)\<close>: epsilon-greedy selection.\<close>

definition choose_action ::
  "'w collaborators \<Rightarrow> QLearningFramework \<Rightarrow> string \<Rightarrow> 'w \<Rightarrow> py_error + (string \<times> 'w)" where
  "choose_action ext ql s w =
     (let (u, w1) = random_uniform ext w
      in if u < epsilon ql then py_random_choice ext (actions ql) w1
         else (case best_actions ql s of
                 Inl e \<Rightarrow> Inl e
               | Inr best \<Rightarrow> py_random_choice ext best w1))"

section \<open>The student agent\<close>

text \<open>
  \<^verbatim>\<open>StudentAgent.solve_problem(problem)\<close> builds a prompt from the problem text, asks the
  language model, and returns the response, or a fixed error text when the response is
  \<^verbatim>\<open>None\<close> or empty.
\<close>

definition newline :: string where
  "newline = [CHR 0x0A]"

definition solve_problem :: "'w collaborators \<Rightarrow> string \<Rightarrow> 'w \<Rightarrow> string \<times> 'w" where
  "solve_problem ext prob w =
     (let prompt = ''You are a student. Here is a problem: '' @ prob @ newline @ newline
                   @ ''Provide a clear and concise answer or solution to the problem.'';
          (response, w') = ollama_generate_response ext prompt w
      in case response of
           None \<Rightarrow> (''Error: Could not generate student response.'', w')
         | Some r \<Rightarrow> if r \<noteq> [] then (r, w')
                     else (''Error: Could not generate student response.'', w'))"

definition reflect_on_feedback ::
  "'w collaborators \<Rightarrow> string \<Rightarrow> string \<Rightarrow> string \<Rightarrow> 'w \<Rightarrow> string \<times> 'w" where
  "reflect_on_feedback ext prob resp fb w =
     (let prompt = ''You are a student. You attempted to solve the following problem:''
                   @ newline @ ''Problem: '' @ prob @ newline @ newline
                   @ ''Your response was: '' @ resp @ newline @ newline
                   @ ''The teacher provided the following feedback: '' @ fb @ newline @ newline
                   @ ''Based on this, reflect on what you learned, what you could ''
                   @ ''have done better, and how you will approach similar problems ''
                   @ ''in the future. Be concise.'';
          (response, w') = ollama_generate_response ext prompt w
      in case response of
           None \<Rightarrow> (''Error: Could not generate reflection.'', w')
         | Some r \<Rightarrow> if r \<noteq> [] then (r, w')
                     else (''Error: Could not generate reflection.'', w'))"

text \<open>\<^verbatim>\<open>process_feedback\<close> triggers the reflection and discards its text.\<close>

definition process_feedback ::
  "'w collaborators \<Rightarrow> string \<Rightarrow> string \<Rightarrow> string \<Rightarrow> 'w \<Rightarrow> 'w" where
  "process_feedback ext prob resp fb w = snd (reflect_on_feedback ext prob resp fb w)"

text \<open>\<^verbatim>\<open>StudentAgent.evolve\<close> only logs: its body is \<^verbatim>\<open>pass\<close>.\<close>

definition student_evolve :: "real \<Rightarrow> 'w \<Rightarrow> 'w" where
  "student_evolve performance_metric w = w"

section \<open>The learning environment\<close>

text \<open>The dictionary \<^verbatim>\<open>round_data\<close> assembled at the end of a completed round.\<close>

record round_data =
  round_number :: nat
  topic :: string
  difficulty :: string
  problem :: string
  student_action :: string
  student_response :: string
  teacher_feedback :: string
  reward :: real

text \<open>
  The calls the environment makes on its collaborators, in order, each with its arguments
  and, for the calls whose result the environment reads, the text returned (the last
  field). The list is not a field of the Python object: it is kept beside the state so that
  properties about which calls happen, with which arguments and how often, can be stated.
\<close>

datatype event =
    Generate_Learning_Material string string string
  | Solve_Problem string string
  | Evaluate_Student_Response string string string
  | Process_Feedback string string string
  | Synthesize_New_Topic string string string
  | Teacher_Evolve real
  | Student_Evolve real
  | Emit_Progress nat int

record 'w LearningEnvironment =
  q_learner :: QLearningFramework
  simulation_results :: "round_data list"
  current_round_number :: nat
  world :: 'w
  calls :: "event list"

definition init_LearningEnvironment :: "QLearningFramework \<Rightarrow> 'w \<Rightarrow> 'w LearningEnvironment" where
  "init_LearningEnvironment ql w =
     \<lparr>q_learner = ql, simulation_results = [], current_round_number = 0, world = w, calls = []\<rparr>"

text \<open>The failure test of the environment: \<^verbatim>\<open>"Error" in text\<close>.\<close>

definition error_marker :: "string \<Rightarrow> bool" where
  "error_marker text = str_in ''Error'' text"

text \<open>
  Steps 3 to 8 of \<^verbatim>\<open>run_interaction_round\<close>, from the call of the student on: the
  part of the round that runs once the problem and the action are known. \<open>None\<close> is the
  empty dictionary returned by an aborted round.
\<close>

definition round_after_choice ::
  "'w collaborators \<Rightarrow> string \<Rightarrow> string \<Rightarrow> string \<Rightarrow> string \<Rightarrow> 'w LearningEnvironment
     \<Rightarrow> round_data option \<times> 'w LearningEnvironment" where
  "round_after_choice ext tp diff prob act env =
     (let (resp, w3) = solve_problem ext prob (world env);
          env3 = env\<lparr>world := w3, calls := calls env @ [Solve_Problem prob resp]\<rparr>
      in if error_marker resp then (None, env3)
         else
          (let (fb, w4) = teacher_evaluate_student_response ext prob resp (world env3);
               env4 = env3\<lparr>world := w4,
                           calls := calls env3 @ [Evaluate_Student_Response prob resp fb]\<rparr>
           in if error_marker fb then (None, env4)
              else
               (let w5 = process_feedback ext prob resp fb (world env4);
                    env5 = env4\<lparr>world := w5, calls := calls env4 @ [Process_Feedback prob resp fb]\<rparr>;
                    r = get_reward_from_feedback fb;
                    next_state_for_q_learning = Some tp;
                    env6 = env5\<lparr>q_learner :=
                             update_q_value (q_learner env5) tp act r next_state_for_q_learning\<rparr>;
                    rd = \<lparr>round_number = current_round_number env6, topic = tp,
                          difficulty = diff, problem = prob, student_action = act,
                          student_response = resp, teacher_feedback = fb, reward = r\<rparr>
                in (Some rd, env6\<lparr>simulation_results := simulation_results env6 @ [rd]\<rparr>))))"

text \<open>
  \<^verbatim>\<open>run_interaction_round(topic, difficulty, total_rounds)\<close>; \<^verbatim>\<open>total_rounds\<close> is used
  for logging only and is not a parameter of the model. An exception raised by
  \<^verbatim>\<open>choose_action\<close> (on an empty action list) propagates.
\<close>

definition run_interaction_round ::
  "'w collaborators \<Rightarrow> string \<Rightarrow> string \<Rightarrow> 'w LearningEnvironment
     \<Rightarrow> py_error + (round_data option \<times> 'w LearningEnvironment)" where
  "run_interaction_round ext tp diff env =
     (let (prob, w1) = teacher_generate_learning_material ext tp diff (world env);
          env1 = env\<lparr>world := w1, calls := calls env @ [Generate_Learning_Material tp diff prob]\<rparr>
      in if error_marker prob then Inr (None, env1)
         else (case choose_action ext (q_learner env1) tp (world env1) of
                 Inl e \<Rightarrow> Inl e
               | Inr (act, w2) \<Rightarrow>
                   Inr (round_after_choice ext tp diff prob act (env1\<lparr>world := w2\<rparr>))))"

section \<open>The simulation loop\<close>

text \<open>\<^verbatim>\<open>str(n)\<close> for the non-negative integer \<^verbatim>\<open>len(rewards_history)\<close>.\<close>

definition digit_char :: "nat \<Rightarrow> char" where
  "digit_char d = ''0123456789'' ! d"

fun str_nat :: "nat \<Rightarrow> string" where
  "str_nat n = (if n < 10 then [digit_char n] else str_nat (n div 10) @ [digit_char (n mod 10)])"

declare str_nat.simps [simp del]

text \<open>
  The text \<^verbatim>\<open>student_performance_summary\<close>: the average over the current window when
  it is non-empty (the division is evaluated only then).
\<close>

definition student_performance_summary :: "'w collaborators \<Rightarrow> real list \<Rightarrow> string" where
  "student_performance_summary ext rewards_history =
     (if rewards_history \<noteq> [] then
        ''Student'' @ [CHR 0x27] @ ''s average reward over last ''
          @ str_nat (length rewards_history) @ '' rounds was ''
          @ format_2f ext (sum_list rewards_history / real (length rewards_history))
      else ''No recent performance data.'')"

text \<open>
  The curriculum-growth check at the head of the loop body, for round index \<open>i\<close>:
  \<^verbatim>\<open>if i > 0 and i % (evolution_interval // 2) == 0\<close>. The conjunction is evaluated
  left to right, so the modulus is computed only when \<open>i > 0\<close>; a zero divisor raises
  \<^verbatim>\<open>ZeroDivisionError\<close>. Python's \<^verbatim>\<open>//\<close> and \<^verbatim>\<open>%\<close> round towards minus infinity, as
  \<open>div\<close> and \<open>mod\<close> on \<^typ>\<open>int\<close> do. The list \<^verbatim>\<open>topics\<close> is the caller's list,
  mutated in place; the model returns it.
\<close>

definition growth_due :: "int \<Rightarrow> nat \<Rightarrow> py_error + bool" where
  "growth_due evolution_interval i =
     (if i > 0 then
        (if evolution_interval div 2 = 0 then Inl ZeroDivisionError
         else Inr (int i mod (evolution_interval div 2) = 0))
      else Inr False)"

definition synthesize_step ::
  "'w collaborators \<Rightarrow> string list \<Rightarrow> real list \<Rightarrow> 'w LearningEnvironment
     \<Rightarrow> string list \<times> 'w LearningEnvironment" where
  "synthesize_step ext topics rewards_history env =
     (let summary = student_performance_summary ext rewards_history;
          current = (if topics \<noteq> [] then last topics else ''general knowledge'');
          (new_topic, w') = teacher_synthesize_new_topic ext current summary (world env);
          env' = env\<lparr>world := w',
                     calls := calls env @ [Synthesize_New_Topic current summary new_topic]\<rparr>
      in if new_topic \<noteq> [] \<and> \<not> error_marker new_topic \<and> new_topic \<notin> set topics
         then (topics @ [new_topic], env')
         else (topics, env'))"

definition growth_check ::
  "'w collaborators \<Rightarrow> int \<Rightarrow> nat \<Rightarrow> string list \<Rightarrow> real list \<Rightarrow> 'w LearningEnvironment
     \<Rightarrow> py_error + (string list \<times> 'w LearningEnvironment)" where
  "growth_check ext evolution_interval i topics rewards_history env =
     (case growth_due evolution_interval i of
        Inl e \<Rightarrow> Inl e
      | Inr due \<Rightarrow>
          if due then Inr (synthesize_step ext topics rewards_history env)
          else Inr (topics, env))"

text \<open>
  The evolution check at the foot of the loop body:
  \<^verbatim>\<open>if (i + 1) % evolution_interval == 0 and len(rewards_history) > 0\<close>. The modulus is
  the left conjunct, so it is always computed.
\<close>

definition evolution_check ::
  "'w collaborators \<Rightarrow> int \<Rightarrow> nat \<Rightarrow> real list \<Rightarrow> 'w LearningEnvironment
     \<Rightarrow> py_error + (real list \<times> 'w LearningEnvironment)" where
  "evolution_check ext evolution_interval i rewards_history env =
     (if evolution_interval = 0 then Inl ZeroDivisionError
      else if (int i + 1) mod evolution_interval = 0 \<and> length rewards_history > 0 then
        (let avg_reward = sum_list rewards_history / real (length rewards_history);
             w1 = teacher_evolve ext avg_reward (world env);
             w2 = student_evolve avg_reward w1
         in Inr ([], env\<lparr>world := w2,
                         calls := calls env @ [Teacher_Evolve avg_reward, Student_Evolve avg_reward]\<rparr>))
      else Inr (rewards_history, env))"

text \<open>
  The optional observer \<^verbatim>\<open>socketio\<close>: when one is given, its \<^verbatim>\<open>emit\<close> is called with
  the current round and the total.
\<close>

type_synonym 'w socketio = "nat \<Rightarrow> int \<Rightarrow> 'w \<Rightarrow> 'w"

definition emit_progress ::
  "'w socketio option \<Rightarrow> nat \<Rightarrow> int \<Rightarrow> 'w LearningEnvironment \<Rightarrow> 'w LearningEnvironment" where
  "emit_progress socketio current_round total_rounds env =
     (case socketio of
        None \<Rightarrow> env
      | Some emit \<Rightarrow> env\<lparr>world := emit current_round total_rounds (world env),
                         calls := calls env @ [Emit_Progress current_round total_rounds]\<rparr>)"

text \<open>
  The middle of the loop body: the topic of the round is drawn from the curriculum, the
  round runs, and the reward of a non-empty result is appended to the window.
\<close>

definition round_step ::
  "'w collaborators \<Rightarrow> string list \<Rightarrow> real list \<Rightarrow> 'w LearningEnvironment
     \<Rightarrow> py_error + (real list \<times> 'w LearningEnvironment)" where
  "round_step ext topics rewards_history env =
     (case py_random_choice ext topics (world env) of
        Inl e \<Rightarrow> Inl e
      | Inr (current_topic, w') \<Rightarrow>
          (case run_interaction_round ext current_topic ''medium'' (env\<lparr>world := w'\<rparr>) of
             Inl e \<Rightarrow> Inl e
           | Inr (result, env') \<Rightarrow>
               (case result of
                  None \<Rightarrow> Inr (rewards_history, env')
                | Some rd \<Rightarrow> Inr (rewards_history @ [reward rd], env'))))"

text \<open>One pass through the body of \<^verbatim>\<open>for i in range(num_rounds)\<close>.\<close>

type_synonym 'w sim_state = "string list \<times> real list \<times> 'w LearningEnvironment"

definition loop_body ::
  "'w collaborators \<Rightarrow> int \<Rightarrow> int \<Rightarrow> 'w socketio option \<Rightarrow> nat \<Rightarrow> 'w sim_state
     \<Rightarrow> py_error + 'w sim_state" where
  "loop_body ext num_rounds evolution_interval socketio i st =
     (case st of (topics, rewards_history, env) \<Rightarrow>
        (let env0 = emit_progress socketio (i + 1) num_rounds (env\<lparr>current_round_number := i + 1\<rparr>)
         in case growth_check ext evolution_interval i topics rewards_history env0 of
              Inl e \<Rightarrow> Inl e
            | Inr (topics1, env1) \<Rightarrow>
                (case round_step ext topics1 rewards_history env1 of
                   Inl e \<Rightarrow> Inl e
                 | Inr (rewards_history1, env2) \<Rightarrow>
                     (case evolution_check ext evolution_interval i rewards_history1 env2 of
                        Inl e \<Rightarrow> Inl e
                      | Inr (rewards_history2, env3) \<Rightarrow> Inr (topics1, rewards_history2, env3)))))"

text \<open>The loop over a list of round indices, stopping at the first exception.\<close>

fun run_rounds ::
  "'w collaborators \<Rightarrow> int \<Rightarrow> int \<Rightarrow> 'w socketio option \<Rightarrow> nat list \<Rightarrow> 'w sim_state
     \<Rightarrow> py_error + 'w sim_state" where
  "run_rounds ext num_rounds evolution_interval socketio [] st = Inr st"
| "run_rounds ext num_rounds evolution_interval socketio (i # rest) st =
     (case loop_body ext num_rounds evolution_interval socketio i st of
        Inl e \<Rightarrow> Inl e
      | Inr st' \<Rightarrow> run_rounds ext num_rounds evolution_interval socketio rest st')"

text \<open>
  \<^verbatim>\<open>get_summary_statistics\<close>. \<^verbatim>\<open>list(set(topics_covered))\<close> enumerates the distinct
  topics in an order Python does not specify; the model lists them by first occurrence,
  and no property below depends on the order.
\<close>

record summary =
  Total_Rounds :: nat
  Average_Reward :: real
  Min_Reward :: real
  Max_Reward :: real
  Unique_Topics_Covered :: "string list"

definition get_summary_statistics :: "'w LearningEnvironment \<Rightarrow> summary" where
  "get_summary_statistics env =
     (if simulation_results env = [] then
        \<lparr>Total_Rounds = 0, Average_Reward = 0, Min_Reward = 0, Max_Reward = 0,
         Unique_Topics_Covered = []\<rparr>
      else
        (let rewards = map reward (simulation_results env);
             topics_covered = map topic (simulation_results env)
         in \<lparr>Total_Rounds = length (simulation_results env),
             Average_Reward = sum_list rewards / real (length rewards),
             Min_Reward = (case py_min rewards of Inr m \<Rightarrow> m | Inl _ \<Rightarrow> 0),
             Max_Reward = (case py_max rewards of Inr m \<Rightarrow> m | Inl _ \<Rightarrow> 0),
             Unique_Topics_Covered = dict_keys topics_covered\<rparr>))"

text \<open>
  \<^verbatim>\<open>run_simulation(num_rounds, topics, evolution_interval, socketio)\<close>. The window
  \<^verbatim>\<open>rewards_history\<close> starts empty and \<^verbatim>\<open>range(num_rounds)\<close> is empty for a
  non-positive \<^verbatim>\<open>num_rounds\<close>. The method returns \<^verbatim>\<open>self.simulation_results\<close>; the
  model returns with it the caller's list \<^verbatim>\<open>topics\<close> as the run left it, and the
  environment. The summary computed at the end is only logged.
\<close>

definition run_simulation ::
  "'w collaborators \<Rightarrow> int \<Rightarrow> string list \<Rightarrow> int \<Rightarrow> 'w socketio option \<Rightarrow> 'w LearningEnvironment
     \<Rightarrow> py_error + (round_data list \<times> string list \<times> 'w LearningEnvironment)" where
  "run_simulation ext num_rounds topics evolution_interval socketio env =
     (case run_rounds ext num_rounds evolution_interval socketio [0..<nat num_rounds]
             (topics, [], env) of
        Inl e \<Rightarrow> Inl e
      | Inr (topics', rewards_history', env') \<Rightarrow> Inr (simulation_results env', topics', env'))"

section \<open>Specification-level notions and test fixtures\<close>

text \<open>
  The bootstrap value as the specification words it: the maximum of the stored values of
  \<open>(next_state, a')\<close> over the action set, and \<open>0\<close> for a terminal or empty next state
  (and for an empty action set, where there is nothing to maximise).
\<close>

definition spec_max_next :: "QLearningFramework \<Rightarrow> string option \<Rightarrow> real" where
  "spec_max_next ql next_state =
     (if truthy_state next_state \<and> actions ql \<noteq> []
      then Max ((\<lambda>a'. get_q_value ql (the next_state) a') ` set (actions ql))
      else 0)"

text \<open>
  The largest value of a state over the action set, and the set of actions that attain it.
\<close>

definition max_q_value :: "QLearningFramework \<Rightarrow> string \<Rightarrow> real" where
  "max_q_value ql s = Max (get_q_value ql s ` set (actions ql))"

definition tied_actions :: "QLearningFramework \<Rightarrow> string \<Rightarrow> string set" where
  "tied_actions ql s = {a \<in> set (actions ql). get_q_value ql s a = max_q_value ql s}"

text \<open>
  The two updates of the repository's unit test \<^verbatim>\<open>test_update_q_value\<close>: the first on
  a fresh policy, the second after the values \<open>2.0\<close>, \<open>1.0\<close>, \<open>0.5\<close> have been stored for
  the next state.
\<close>

definition test_actions :: "string list" where
  "test_actions = [''action1'', ''action2'', ''action3'']"

definition test_learner_fresh :: QLearningFramework where
  "test_learner_fresh = init_QLearningFramework test_actions (1 / 10) (9 / 10) (1 / 10)"

definition test_learner_second :: QLearningFramework where
  "test_learner_second =
     (update_q_value test_learner_fresh ''state_s'' ''action_a'' 1 (Some ''state_s_prime''))
       \<lparr>q_table :=
          (q_table (update_q_value test_learner_fresh ''state_s'' ''action_a'' 1
                      (Some ''state_s_prime'')))
          ((''state_s_prime'', ''action1'') \<mapsto> 2,
           (''state_s_prime'', ''action2'') \<mapsto> 1,
           (''state_s_prime'', ''action3'') \<mapsto> 1 / 2)\<rparr>"

text \<open>
  The policy of the unit test \<^verbatim>\<open>test_choose_action_exploitation\<close>: \<open>epsilon = 0\<close> and
  the values \<open>0.1\<close>, \<open>0.5\<close>, \<open>0.2\<close> stored for the three actions at one state.
\<close>

definition test_learner_greedy :: QLearningFramework where
  "test_learner_greedy =
     \<lparr>q_table = [(''test_state'', ''action1'') \<mapsto> 1 / 10,
                 (''test_state'', ''action2'') \<mapsto> 1 / 2,
                 (''test_state'', ''action3'') \<mapsto> 1 / 5],
      actions = test_actions, alpha = 1 / 10, gamma = 9 / 10, epsilon = 0\<rparr>"

text \<open>
  Collaborators that answer every call with a fixed text, as the mocks of the
  repository's tests do. The world is a counter of the draws made from the random
  generator: the \<open>n\<close>-th draw of \<open>random_choice\<close> is \<open>n\<close>, and \<open>random_uniform\<close> always
  gives \<open>1/2\<close>.
\<close>

definition fixed_collaborators ::
  "string \<Rightarrow> string option \<Rightarrow> string \<Rightarrow> string \<Rightarrow> nat collaborators" where
  "fixed_collaborators prob resp fb new_topic =
     \<lparr>teacher_generate_learning_material = (\<lambda>tp diff w. (prob, w)),
      teacher_evaluate_student_response = (\<lambda>p r w. (fb, w)),
      teacher_synthesize_new_topic = (\<lambda>cur summ w. (new_topic, w)),
      teacher_evolve = (\<lambda>m w. w),
      ollama_generate_response = (\<lambda>prompt w. (resp, w)),
      random_uniform = (\<lambda>w. (1 / 2, w)),
      random_choice = (\<lambda>n w. (w, Suc w)),
      format_2f = (\<lambda>x. ''0.00'')\<rparr>"

text \<open>The mocks of \<^verbatim>\<open>test_run_simulation\<close>.\<close>

definition test_collaborators :: "nat collaborators" where
  "test_collaborators = fixed_collaborators ''problem'' (Some ''response'') ''Correct.'' ''new_topic_A''"

text \<open>An environment that has recorded three rounds on two topics.\<close>

definition test_round :: "nat \<Rightarrow> string \<Rightarrow> string \<Rightarrow> real \<Rightarrow> round_data" where
  "test_round n tp fb r =
     \<lparr>round_number = n, topic = tp, difficulty = ''medium'', problem = ''problem'',
      student_action = ''action1'', student_response = ''response'',
      teacher_feedback = fb, reward = r\<rparr>"

definition test_env_recorded :: "nat LearningEnvironment" where
  "test_env_recorded =
     (init_LearningEnvironment test_learner_fresh 0)
       \<lparr>simulation_results :=
          [test_round 1 ''topic1'' ''Correct.'' 1,
           test_round 2 ''topic2'' ''Needs improvement.'' (- (1 / 2)),
           test_round 3 ''topic1'' ''Correct.'' 1]\<rparr>"

text \<open>
  The text a call returned to the environment, and the calls whose returned text carries
  the error marker.
\<close>

fun returned_text :: "event \<Rightarrow> string option" where
  "returned_text (Generate_Learning_Material tp diff t) = Some t"
| "returned_text (Solve_Problem p t) = Some t"
| "returned_text (Evaluate_Student_Response p r t) = Some t"
| "returned_text (Synthesize_New_Topic cur summ t) = Some t"
| "returned_text (Process_Feedback p r f) = None"
| "returned_text (Teacher_Evolve m) = None"
| "returned_text (Student_Evolve m) = None"
| "returned_text (Emit_Progress c t) = None"

definition failed_call :: "event \<Rightarrow> bool" where
  "failed_call e = (case returned_text e of None \<Rightarrow> False | Some t \<Rightarrow> error_marker t)"

text \<open>A fresh environment around the fresh policy of the unit tests.\<close>

definition test_env :: "nat LearningEnvironment" where
  "test_env = init_LearningEnvironment test_learner_fresh 0"

text \<open>The calls of \<^verbatim>\<open>solve_problem\<close> in a log: the argument and the response of each.\<close>

fun solve_calls :: "event list \<Rightarrow> (string \<times> string) list" where
  "solve_calls [] = []"
| "solve_calls (Solve_Problem p t # es) = (p, t) # solve_calls es"
| "solve_calls (e # es) = solve_calls es"

text \<open>
  The calls of \<^verbatim>\<open>synthesize_new_topic\<close> in a log, and the metrics passed to the
  \<^verbatim>\<open>evolve\<close> hooks of the teacher and of the student.
\<close>

fun synthesize_calls :: "event list \<Rightarrow> (string \<times> string \<times> string) list" where
  "synthesize_calls [] = []"
| "synthesize_calls (Synthesize_New_Topic cur summ t # es) = (cur, summ, t) # synthesize_calls es"
| "synthesize_calls (e # es) = synthesize_calls es"

fun teacher_evolve_calls :: "event list \<Rightarrow> real list" where
  "teacher_evolve_calls [] = []"
| "teacher_evolve_calls (Teacher_Evolve m # es) = m # teacher_evolve_calls es"
| "teacher_evolve_calls (e # es) = teacher_evolve_calls es"

fun student_evolve_calls :: "event list \<Rightarrow> real list" where
  "student_evolve_calls [] = []"
| "student_evolve_calls (Student_Evolve m # es) = m # student_evolve_calls es"
| "student_evolve_calls (e # es) = student_evolve_calls es"

text \<open>The mean of a window of rewards.\<close>

definition mean :: "real list \<Rightarrow> real" where
  "mean xs = sum_list xs / real (length xs)"

text \<open>The two conditions of the loop body, as the specification words them.\<close>

definition growth_condition :: "int \<Rightarrow> nat \<Rightarrow> bool" where
  "growth_condition evolution_interval i \<longleftrightarrow> i > 0 \<and> int i mod (evolution_interval div 2) = 0"

definition evolution_condition :: "int \<Rightarrow> nat \<Rightarrow> bool" where
  "evolution_condition evolution_interval i \<longleftrightarrow> (int i + 1) mod evolution_interval = 0"

text \<open>The calls that an interaction round makes.\<close>

definition round_event :: "event \<Rightarrow> bool" where
  "round_event e \<longleftrightarrow> (\<exists>t d p. e = Generate_Learning_Material t d p)
                              \<or> (\<exists>p t. e = Solve_Problem p t)
                              \<or> (\<exists>p a t. e = Evaluate_Student_Response p a t)
                              \<or> (\<exists>p a f. e = Process_Feedback p a f)"

section \<open>Properties of the policy update\<close>

lemma foldl_max_eq_Max: "foldl max (x::real) xs = Max (insert x (set xs))"
proof (induction xs arbitrary: x)
  case Nil
  show ?case by simp
next
  case (Cons y ys)
  have "Max (insert (max x y) (set ys)) = Max (insert x (insert y (set ys)))"
    by (cases "set ys = {}") (simp_all add: max.assoc)
  with Cons show ?case by simp
qed

lemma py_max_eq_Max: "xs \<noteq> [] \<Longrightarrow> py_max xs = Inr (Max (set xs))"
  by (cases xs) (simp_all add: foldl_max_eq_Max)

lemma max_next_q_spec: "max_next_q ql next_state = spec_max_next ql next_state"
proof (cases next_state)
  case None
  then show ?thesis by (simp add: max_next_q_def spec_max_next_def)
next
  case (Some ns)
  show ?thesis
  proof (cases "ns \<noteq> [] \<and> actions ql \<noteq> []")
    case True
    then have "py_max (map (get_q_value ql ns) (actions ql))
               = Inr (Max (set (map (get_q_value ql ns) (actions ql))))"
      by (intro py_max_eq_Max) simp
    with True Some show ?thesis
      by (simp add: max_next_q_def spec_max_next_def)
  next
    case False
    with Some show ?thesis
      by (auto simp: max_next_q_def spec_max_next_def)
  qed
qed


text \<open>
  Claim C1. For every state, action, reward and next state, \<open>update_q_value\<close> stores
  \<open>current + alpha * (reward + gamma * maxNext - current)\<close> at the key \<open>(state, action)\<close>,
  where \<open>current\<close> is the stored value (default \<open>0\<close>) and \<open>maxNext\<close> is the maximum
  stored value of the next state over the action set when the next state is non-empty and
  non-null, and \<open>0\<close> otherwise. Every other entry of the table and every hyperparameter
  is left as it was: the table after the call is the table before it with that single
  key overwritten. From an all-zero table with \<open>gamma = 0.9\<close>, \<open>alpha = 0.1\<close> and reward
  \<open>1.0\<close> the new value is \<open>0.1\<close>; from a stored value \<open>0.1\<close>, a reward \<open>1.0\<close> and a next
  state whose best value is \<open>2.0\<close> the new value is \<open>0.37\<close> (exactly, in real arithmetic).
\<close>

theorem update_q_value_td_rule:
  "q_table (update_q_value ql s a r next_state) =
     (q_table ql)((s, a) \<mapsto>
        get_q_value ql s a
          + alpha ql * (r + gamma ql * spec_max_next ql next_state - get_q_value ql s a))
   \<and> (\<forall>k. k \<noteq> (s, a) \<longrightarrow> q_table (update_q_value ql s a r next_state) k = q_table ql k)
   \<and> actions (update_q_value ql s a r next_state) = actions ql
   \<and> alpha (update_q_value ql s a r next_state) = alpha ql
   \<and> gamma (update_q_value ql s a r next_state) = gamma ql
   \<and> epsilon (update_q_value ql s a r next_state) = epsilon ql
   \<and> (alpha ql = 1 / 10 \<and> gamma ql = 9 / 10 \<and> (\<forall>s' a'. get_q_value ql s' a' = 0)
        \<longrightarrow> get_q_value (update_q_value ql s a 1 next_state) s a = 1 / 10)
   \<and> (alpha ql = 1 / 10 \<and> gamma ql = 9 / 10 \<and> get_q_value ql s a = 1 / 10
        \<and> spec_max_next ql next_state = 2
        \<longrightarrow> get_q_value (update_q_value ql s a 1 next_state) s a = 37 / 100)"
proof -
  have zero: "spec_max_next ql next_state = 0" if "\<forall>s' a'. get_q_value ql s' a' = 0"
  proof (cases "truthy_state next_state \<and> actions ql \<noteq> []")
    case True
    then have "(\<lambda>a'. get_q_value ql (the next_state) a') ` set (actions ql) = {0}"
      using that by (cases "actions ql") auto
    with True show ?thesis by (simp add: spec_max_next_def)
  next
    case False
    then show ?thesis by (auto simp: spec_max_next_def)
  qed
  have tab: "q_table (update_q_value ql s a r' next_state) =
     (q_table ql)((s, a) \<mapsto>
        get_q_value ql s a
          + alpha ql * (r' + gamma ql * spec_max_next ql next_state - get_q_value ql s a))"
    for r'
    by (simp add: update_q_value_def Let_def max_next_q_spec)
  have val: "get_q_value (update_q_value ql s a r' next_state) s a =
        get_q_value ql s a
          + alpha ql * (r' + gamma ql * spec_max_next ql next_state - get_q_value ql s a)"
    for r'
    unfolding get_q_value_def [of "update_q_value ql s a r' next_state"] tab by simp
  have first: "get_q_value (update_q_value ql s a 1 next_state) s a = 1 / 10"
    if "alpha ql = 1 / 10 \<and> gamma ql = 9 / 10 \<and> (\<forall>s' a'. get_q_value ql s' a' = 0)"
  proof -
    from that have p: "alpha ql = 1 / 10" "gamma ql = 9 / 10" "get_q_value ql s a = 0"
      by blast+
    from that zero have m: "spec_max_next ql next_state = 0"
      by blast
    show ?thesis unfolding val p m by simp
  qed
  have second: "get_q_value (update_q_value ql s a 1 next_state) s a = 37 / 100"
    if "alpha ql = 1 / 10 \<and> gamma ql = 9 / 10 \<and> get_q_value ql s a = 1 / 10
        \<and> spec_max_next ql next_state = 2"
  proof -
    from that have p: "alpha ql = 1 / 10" "gamma ql = 9 / 10" "get_q_value ql s a = 1 / 10"
      "spec_max_next ql next_state = 2"
      by blast+
    show ?thesis unfolding val p by simp
  qed
  have others: "\<forall>k. k \<noteq> (s, a) \<longrightarrow> q_table (update_q_value ql s a r next_state) k = q_table ql k"
    unfolding tab by simp
  have params: "actions (update_q_value ql s a r next_state) = actions ql
    \<and> alpha (update_q_value ql s a r next_state) = alpha ql
    \<and> gamma (update_q_value ql s a r next_state) = gamma ql
    \<and> epsilon (update_q_value ql s a r next_state) = epsilon ql"
    by (simp add: update_q_value_def Let_def)
  from tab [of r] others params first second show ?thesis
    by blast
qed

lemma test_learner_fresh_zero: "get_q_value test_learner_fresh s' a' = 0"
  by (simp add: test_learner_fresh_def init_QLearningFramework_def get_q_value_def)

lemma test_learner_second_current:
  "get_q_value test_learner_second ''state_s'' ''action_a'' = 1 / 10"
  by (simp add: test_learner_second_def test_learner_fresh_def init_QLearningFramework_def
        update_q_value_def get_q_value_def max_next_q_def test_actions_def)

lemma test_learner_second_best:
  "spec_max_next test_learner_second (Some ''state_s_prime'') = 2"
  by (simp add: test_learner_second_def test_learner_fresh_def init_QLearningFramework_def
        update_q_value_def get_q_value_def max_next_q_def test_actions_def spec_max_next_def)

theorem update_q_value_td_rule_witness:
  "get_q_value (update_q_value test_learner_fresh ''state_s'' ''action_a'' 1
      (Some ''state_s_prime'')) ''state_s'' ''action_a'' = 1 / 10
   \<and> get_q_value (update_q_value test_learner_second ''state_s'' ''action_a'' 1
      (Some ''state_s_prime'')) ''state_s'' ''action_a'' = 37 / 100
   \<and> q_table (update_q_value test_learner_fresh ''state_s'' ''action_a'' 1
      (Some ''state_s_prime'')) (''state_s'', ''action_b'') = None"
proof -
  have fresh: "alpha test_learner_fresh = 1 / 10 \<and> gamma test_learner_fresh = 9 / 10"
    by (simp add: test_learner_fresh_def init_QLearningFramework_def)
  have second: "alpha test_learner_second = 1 / 10 \<and> gamma test_learner_second = 9 / 10"
    by (simp add: test_learner_second_def test_learner_fresh_def init_QLearningFramework_def
          update_q_value_def Let_def)
  have other: "q_table test_learner_fresh (''state_s'', ''action_b'') = None"
    by (simp add: test_learner_fresh_def init_QLearningFramework_def)
  have neq: "(''state_s'', ''action_b'') \<noteq> (''state_s'', ''action_a'')"
    by simp
  from update_q_value_td_rule [of test_learner_fresh "''state_s''" "''action_a''" 1
         "Some ''state_s_prime''"]
       update_q_value_td_rule [of test_learner_second "''state_s''" "''action_a''" 1
         "Some ''state_s_prime''"]
       fresh second other neq test_learner_fresh_zero
       test_learner_second_current test_learner_second_best
  show ?thesis by metis
qed


section \<open>Properties of the reward extractor\<close>

lemma starts_with_prefix: "starts_with hay needle \<longleftrightarrow> prefix needle hay"
  by (induction hay needle rule: starts_with.induct) auto

lemma str_in_sublist: "str_in needle hay \<longleftrightarrow> sublist needle hay"
  by (induction hay) (simp_all add: starts_with_prefix sublist_Cons_right)

lemma str_in_iff: "str_in needle hay \<longleftrightarrow> (\<exists>before after. hay = before @ needle @ after)"
  by (simp add: str_in_sublist sublist_def)

text \<open>
  Claim C2. The reward extractor is a function of the feedback text alone. Its value is the
  sum, starting from \<open>0\<close>, of \<open>+1\<close> if the lowercased text contains \<open>correct\<close> but not
  \<open>incorrect\<close>, \<open>-1\<close> if it contains \<open>incorrect\<close>, \<open>+1/2\<close> if it contains \<open>strengths\<close> and
  \<open>-1/2\<close> if it contains \<open>improvement\<close>. Hence the value is always one of
  \<open>-3/2, -1, -1/2, 0, 1/2, 1, 3/2\<close>; the text \<open>Correct, good strengths.\<close> gives \<open>3/2\<close>
  and \<open>Incorrect, needs lots of improvement.\<close> gives \<open>-3/2\<close>.
\<close>

theorem get_reward_from_feedback_rules:
  "get_reward_from_feedback feedback =
      0 + (if str_in ''correct'' (lower feedback) \<and> \<not> str_in ''incorrect'' (lower feedback)
           then 1 else 0)
        + (if str_in ''incorrect'' (lower feedback) then - 1 else 0)
        + (if str_in ''strengths'' (lower feedback) then 1 / 2 else 0)
        + (if str_in ''improvement'' (lower feedback) then - (1 / 2) else 0)
   \<and> get_reward_from_feedback feedback \<in> {- (3 / 2), - 1, - (1 / 2), 0, 1 / 2, 1, 3 / 2}
   \<and> get_reward_from_feedback ''Correct, good strengths.'' = 3 / 2
   \<and> get_reward_from_feedback ''Incorrect, needs lots of improvement.'' = - (3 / 2)"
proof -
  have rules: "get_reward_from_feedback fb =
      0 + (if str_in ''correct'' (lower fb) \<and> \<not> str_in ''incorrect'' (lower fb) then 1 else 0)
        + (if str_in ''incorrect'' (lower fb) then - 1 else 0)
        + (if str_in ''strengths'' (lower fb) then 1 / 2 else 0)
        + (if str_in ''improvement'' (lower fb) then - (1 / 2) else 0)" for fb
    by (simp add: get_reward_from_feedback_def Let_def)
  have range: "get_reward_from_feedback feedback \<in> {- (3 / 2), - 1, - (1 / 2), 0, 1 / 2, 1, 3 / 2}"
    unfolding rules by simp
  have low1: "lower ''Correct, good strengths.'' = ''correct, good strengths.''"
    by (simp add: lower_def lower_char_def)
  have low2: "lower ''Incorrect, needs lots of improvement.''
              = ''incorrect, needs lots of improvement.''"
    by (simp add: lower_def lower_char_def)
  have ex1: "get_reward_from_feedback ''Correct, good strengths.'' = 3 / 2"
    unfolding rules low1 by simp
  have ex2: "get_reward_from_feedback ''Incorrect, needs lots of improvement.'' = - (3 / 2)"
    unfolding rules low2 by simp
  from rules [of feedback] range ex1 ex2 show ?thesis
    by blast
qed


section \<open>Properties of action selection\<close>

lemma set_dict_keys: "set (dict_keys xs) = set xs"
  by (induction xs rule: dict_keys.induct) auto

lemma distinct_dict_keys: "distinct (dict_keys xs)"
  by (induction xs rule: dict_keys.induct) (auto simp: set_dict_keys)

lemma dict_keys_Nil: "dict_keys xs = [] \<longleftrightarrow> xs = []"
  by (cases xs) simp_all

lemma best_actions_eq:
  assumes "actions ql \<noteq> []"
  shows "best_actions ql s =
           Inr (filter (\<lambda>a. get_q_value ql s a = max_q_value ql s) (dict_keys (actions ql)))"
proof -
  have ne: "map snd (q_values_for_state ql s) \<noteq> []"
    using assms by (simp add: q_values_for_state_def dict_keys_Nil)
  have "set (map snd (q_values_for_state ql s)) = get_q_value ql s ` set (actions ql)"
    by (auto simp: q_values_for_state_def set_dict_keys)
  with py_max_eq_Max [OF ne]
  have m: "py_max (map snd (q_values_for_state ql s)) = Inr (max_q_value ql s)"
    by (simp add: max_q_value_def)
  have "map fst (filter (\<lambda>(a, q_value). q_value = m) (q_values_for_state ql s))
        = filter (\<lambda>a. get_q_value ql s a = m) (dict_keys (actions ql))" for m
    by (simp add: q_values_for_state_def filter_map comp_def)
  with m show ?thesis
    by (simp add: best_actions_def)
qed

lemma tied_actions_nonempty:
  assumes "actions ql \<noteq> []"
  shows "tied_actions ql s \<noteq> {}"
proof -
  have "finite (get_q_value ql s ` set (actions ql))" "get_q_value ql s ` set (actions ql) \<noteq> {}"
    using assms by simp_all
  then have "Max (get_q_value ql s ` set (actions ql)) \<in> get_q_value ql s ` set (actions ql)"
    by (rule Max_in)
  then show ?thesis
    by (auto simp: tied_actions_def max_q_value_def)
qed

text \<open>
  Claim C4. For a non-empty action set and \<open>epsilon = 0\<close> (the draw of
  \<^verbatim>\<open>random.uniform(0, 1)\<close> being non-negative), \<open>choose_action\<close> takes the exploitation
  branch: it returns an action of the action set whose value at the state, missing entries
  counting as \<open>0\<close>, is the maximum over the whole action set. The action returned is the
  element that \<^verbatim>\<open>random.choice\<close> draws from \<open>best_actions\<close>, a duplicate-free list of
  exactly the tied actions; so the result is always one of the tied actions, every tied
  action can be drawn, a unique maximiser is returned whatever the generator does, and
  when all values are equal the tied set is the whole action set.
\<close>

theorem choose_action_greedy:
  assumes "epsilon ql = 0" and "actions ql \<noteq> []" and "0 \<le> fst (random_uniform ext w)"
  shows "\<exists>best k w'.
           best_actions ql s = Inr best
         \<and> distinct best \<and> set best = tied_actions ql s \<and> best \<noteq> []
         \<and> random_choice ext (length best) (snd (random_uniform ext w)) = (k, w')
         \<and> choose_action ext ql s w = Inr (best ! (k mod length best), w')
         \<and> best ! (k mod length best) \<in> set (actions ql)
         \<and> get_q_value ql s (best ! (k mod length best)) = Max (get_q_value ql s ` set (actions ql))
         \<and> best ! (k mod length best) \<in> tied_actions ql s
         \<and> (\<forall>b. tied_actions ql s = {b} \<longrightarrow> best ! (k mod length best) = b)
         \<and> (\<forall>b \<in> tied_actions ql s. \<exists>j. best ! (j mod length best) = b)
         \<and> ((\<forall>a \<in> set (actions ql). \<forall>b \<in> set (actions ql). get_q_value ql s a = get_q_value ql s b)
              \<longrightarrow> tied_actions ql s = set (actions ql))"
proof -
  define best where "best = filter (\<lambda>a. get_q_value ql s a = max_q_value ql s) (dict_keys (actions ql))"
  obtain u w1 where u: "random_uniform ext w = (u, w1)" by (cases "random_uniform ext w")
  obtain k w' where k: "random_choice ext (length best) w1 = (k, w')"
    by (cases "random_choice ext (length best) w1")
  have b: "best_actions ql s = Inr best"
    unfolding best_def by (rule best_actions_eq [OF assms(2)])
  have d: "distinct best"
    by (simp add: best_def distinct_dict_keys)
  have st: "set best = tied_actions ql s"
    by (auto simp: best_def tied_actions_def set_dict_keys)
  have ne: "best \<noteq> []"
    using tied_actions_nonempty [OF assms(2), of s] st by auto
  have ch: "choose_action ext ql s w = Inr (best ! (k mod length best), w')"
    using assms(1,3) u k b ne
    by (simp add: choose_action_def py_random_choice_def)
  have mem: "best ! (k mod length best) \<in> tied_actions ql s"
    using ne st nth_mem [of "k mod length best" best] by simp
  have reach: "\<exists>j. best ! (j mod length best) = b" if "b \<in> tied_actions ql s" for b
  proof -
    from that st have "b \<in> set best" by simp
    then obtain j where "j < length best" "best ! j = b"
      unfolding in_set_conv_nth by blast
    then have "best ! (j mod length best) = b" by simp
    then show ?thesis ..
  qed
  have alleq: "tied_actions ql s = set (actions ql)"
    if "\<forall>a \<in> set (actions ql). \<forall>b \<in> set (actions ql). get_q_value ql s a = get_q_value ql s b"
  proof -
    from tied_actions_nonempty [OF assms(2), of s] obtain c where c: "c \<in> tied_actions ql s"
      by auto
    then have c': "c \<in> set (actions ql)" "get_q_value ql s c = max_q_value ql s"
      by (simp_all add: tied_actions_def)
    have "get_q_value ql s a = max_q_value ql s" if "a \<in> set (actions ql)" for a
      using c' that \<open>\<forall>a \<in> set (actions ql). \<forall>b \<in> set (actions ql). get_q_value ql s a = get_q_value ql s b\<close>
      by metis
    then show ?thesis
      unfolding tied_actions_def by blast
  qed
  from mem have mem': "best ! (k mod length best) \<in> set (actions ql)"
    "get_q_value ql s (best ! (k mod length best)) = Max (get_q_value ql s ` set (actions ql))"
    by (auto simp: tied_actions_def max_q_value_def)
  have uniq: "\<forall>b. tied_actions ql s = {b} \<longrightarrow> best ! (k mod length best) = b"
    using mem by auto
  have k': "random_choice ext (length best) (snd (random_uniform ext w)) = (k, w')"
    using k u by simp
  have reach': "\<forall>b \<in> tied_actions ql s. \<exists>j. best ! (j mod length best) = b"
    using reach by blast
  have alleq': "(\<forall>a \<in> set (actions ql). \<forall>b \<in> set (actions ql). get_q_value ql s a = get_q_value ql s b)
              \<longrightarrow> tied_actions ql s = set (actions ql)"
    using alleq by blast
  show ?thesis
    by (intro exI [of _ best] exI [of _ k] exI [of _ w'] conjI)
       (fact b d st ne k' ch mem mem' uniq reach' alleq')+
qed

lemma test_learner_greedy_tied: "tied_actions test_learner_greedy ''test_state'' = {''action2''}"
proof -
  have v: "get_q_value test_learner_greedy ''test_state'' ''action1'' = 1 / 10"
    "get_q_value test_learner_greedy ''test_state'' ''action2'' = 1 / 2"
    "get_q_value test_learner_greedy ''test_state'' ''action3'' = 1 / 5"
    by (simp_all add: test_learner_greedy_def get_q_value_def)
  have a: "set (actions test_learner_greedy) = {''action1'', ''action2'', ''action3''}"
    by (simp add: test_learner_greedy_def test_actions_def)
  have m: "max_q_value test_learner_greedy ''test_state'' = 1 / 2"
    unfolding max_q_value_def a by (simp add: v)
  show ?thesis
    unfolding tied_actions_def a m using v by auto
qed

theorem choose_action_greedy_witness:
  "epsilon test_learner_greedy = 0 \<and> actions test_learner_greedy \<noteq> []
   \<and> 0 \<le> fst (random_uniform test_collaborators 0)
   \<and> (\<exists>w'. choose_action test_collaborators test_learner_greedy ''test_state'' 0
              = Inr (''action2'', w'))
   \<and> (\<exists>a w'. choose_action test_collaborators test_learner_greedy ''unseen_state'' 0 = Inr (a, w')
              \<and> a \<in> set test_actions
              \<and> tied_actions test_learner_greedy ''unseen_state'' = set test_actions)"
proof -
  have h1: "epsilon test_learner_greedy = 0"
    by (simp add: test_learner_greedy_def)
  have h2: "actions test_learner_greedy \<noteq> []"
    by (simp add: test_learner_greedy_def test_actions_def)
  have h3: "0 \<le> fst (random_uniform test_collaborators 0)"
    by (simp add: test_collaborators_def fixed_collaborators_def)
  from choose_action_greedy [OF h1 h2 h3, of "''test_state''"]
  obtain best k w' where
    c: "choose_action test_collaborators test_learner_greedy ''test_state'' 0
          = Inr (best ! (k mod length best), w')"
    and u: "\<forall>b. tied_actions test_learner_greedy ''test_state'' = {b}
              \<longrightarrow> best ! (k mod length best) = b"
    by blast
  from u test_learner_greedy_tied have "best ! (k mod length best) = ''action2''"
    by blast
  with c have first: "\<exists>w'. choose_action test_collaborators test_learner_greedy ''test_state'' 0
              = Inr (''action2'', w')"
    by auto
  have eq: "\<forall>a \<in> set (actions test_learner_greedy). \<forall>b \<in> set (actions test_learner_greedy).
              get_q_value test_learner_greedy ''unseen_state'' a
                = get_q_value test_learner_greedy ''unseen_state'' b"
    by (simp add: test_learner_greedy_def get_q_value_def)
  have acts: "set (actions test_learner_greedy) = set test_actions"
    by (simp add: test_learner_greedy_def)
  from choose_action_greedy [OF h1 h2 h3, of "''unseen_state''"]
  obtain best' k' w'' where
    c': "choose_action test_collaborators test_learner_greedy ''unseen_state'' 0
          = Inr (best' ! (k' mod length best'), w'')"
    and m': "best' ! (k' mod length best') \<in> set (actions test_learner_greedy)"
    and t': "(\<forall>a \<in> set (actions test_learner_greedy). \<forall>b \<in> set (actions test_learner_greedy).
              get_q_value test_learner_greedy ''unseen_state'' a
                = get_q_value test_learner_greedy ''unseen_state'' b)
             \<longrightarrow> tied_actions test_learner_greedy ''unseen_state''
                   = set (actions test_learner_greedy)"
    by blast
  from t' eq have "tied_actions test_learner_greedy ''unseen_state''
                     = set (actions test_learner_greedy)"
    by blast
  then have tied: "tied_actions test_learner_greedy ''unseen_state'' = set test_actions"
    unfolding acts .
  from m' have mem: "best' ! (k' mod length best') \<in> set test_actions"
    unfolding acts .
  from c' mem tied have second: "\<exists>a w'.
        choose_action test_collaborators test_learner_greedy ''unseen_state'' 0 = Inr (a, w')
      \<and> a \<in> set test_actions
      \<and> tied_actions test_learner_greedy ''unseen_state'' = set test_actions"
    by blast
  from h1 h2 h3 first second show ?thesis
    by blast
qed

section \<open>Properties of the summary statistics\<close>

lemma foldl_min_eq_Min: "foldl min (x::real) xs = Min (insert x (set xs))"
proof (induction xs arbitrary: x)
  case Nil
  show ?case by simp
next
  case (Cons y ys)
  have "Min (insert (min x y) (set ys)) = Min (insert x (insert y (set ys)))"
    by (cases "set ys = {}") (simp_all add: min.assoc)
  with Cons show ?case by simp
qed

lemma py_min_eq_Min: "xs \<noteq> [] \<Longrightarrow> py_min xs = Inr (Min (set xs))"
  by (cases xs) (simp_all add: foldl_min_eq_Min)

text \<open>
  Claim C8. On an empty sequence of results \<open>get_summary_statistics\<close> returns the zero
  summary: total rounds \<open>0\<close>, average, minimum and maximum reward \<open>0\<close>, and no topics. On a
  non-empty sequence it returns the length of the sequence, the arithmetic mean, the
  minimum and the maximum of the recorded rewards, and a duplicate-free list of exactly
  the topics of the recorded rounds.
\<close>

theorem get_summary_statistics_spec:
  "(simulation_results env = [] \<longrightarrow>
      get_summary_statistics env =
        \<lparr>Total_Rounds = 0, Average_Reward = 0, Min_Reward = 0, Max_Reward = 0,
         Unique_Topics_Covered = []\<rparr>)
   \<and> (simulation_results env \<noteq> [] \<longrightarrow>
        Total_Rounds (get_summary_statistics env) = length (simulation_results env)
      \<and> Average_Reward (get_summary_statistics env)
          = (\<Sum>rd \<leftarrow> simulation_results env. reward rd) / real (length (simulation_results env))
      \<and> Min_Reward (get_summary_statistics env) = Min (reward ` set (simulation_results env))
      \<and> Max_Reward (get_summary_statistics env) = Max (reward ` set (simulation_results env))
      \<and> set (Unique_Topics_Covered (get_summary_statistics env))
          = topic ` set (simulation_results env)
      \<and> distinct (Unique_Topics_Covered (get_summary_statistics env)))"
proof (cases "simulation_results env = []")
  case True
  then show ?thesis by (simp add: get_summary_statistics_def)
next
  case False
  then have ne: "map reward (simulation_results env) \<noteq> []" by simp
  from False show ?thesis
    by (simp add: get_summary_statistics_def Let_def py_min_eq_Min [OF ne] py_max_eq_Max [OF ne]
          set_dict_keys distinct_dict_keys)
qed

theorem get_summary_statistics_spec_witness:
  "get_summary_statistics (init_LearningEnvironment test_learner_fresh (0::nat)) =
        \<lparr>Total_Rounds = 0, Average_Reward = 0, Min_Reward = 0, Max_Reward = 0,
         Unique_Topics_Covered = []\<rparr>
   \<and> Total_Rounds (get_summary_statistics test_env_recorded) = 3
   \<and> Average_Reward (get_summary_statistics test_env_recorded) = 1 / 2
   \<and> Min_Reward (get_summary_statistics test_env_recorded) = - (1 / 2)
   \<and> Max_Reward (get_summary_statistics test_env_recorded) = 1
   \<and> set (Unique_Topics_Covered (get_summary_statistics test_env_recorded)) = {''topic1'', ''topic2''}"
proof -
  have e: "simulation_results (init_LearningEnvironment test_learner_fresh (0::nat)) = []"
    by (simp add: init_LearningEnvironment_def)
  have r: "simulation_results test_env_recorded =
          [test_round 1 ''topic1'' ''Correct.'' 1,
           test_round 2 ''topic2'' ''Needs improvement.'' (- (1 / 2)),
           test_round 3 ''topic1'' ''Correct.'' 1]"
    by (simp add: test_env_recorded_def)
  have n: "simulation_results test_env_recorded \<noteq> []"
    unfolding r by simp
  from get_summary_statistics_spec [of "init_LearningEnvironment test_learner_fresh (0::nat)"] e
  have z: "get_summary_statistics (init_LearningEnvironment test_learner_fresh (0::nat)) =
        \<lparr>Total_Rounds = 0, Average_Reward = 0, Min_Reward = 0, Max_Reward = 0,
         Unique_Topics_Covered = []\<rparr>"
    by blast
  from get_summary_statistics_spec [of test_env_recorded] n
  have s: "Total_Rounds (get_summary_statistics test_env_recorded) = length (simulation_results test_env_recorded)"
    "Average_Reward (get_summary_statistics test_env_recorded)
          = (\<Sum>rd \<leftarrow> simulation_results test_env_recorded. reward rd) / real (length (simulation_results test_env_recorded))"
    "Min_Reward (get_summary_statistics test_env_recorded) = Min (reward ` set (simulation_results test_env_recorded))"
    "Max_Reward (get_summary_statistics test_env_recorded) = Max (reward ` set (simulation_results test_env_recorded))"
    "set (Unique_Topics_Covered (get_summary_statistics test_env_recorded))
          = topic ` set (simulation_results test_env_recorded)"
    by blast+
  have "Total_Rounds (get_summary_statistics test_env_recorded) = 3"
    "Average_Reward (get_summary_statistics test_env_recorded) = 1 / 2"
    "Min_Reward (get_summary_statistics test_env_recorded) = - (1 / 2)"
    "Max_Reward (get_summary_statistics test_env_recorded) = 1"
    "set (Unique_Topics_Covered (get_summary_statistics test_env_recorded)) = {''topic1'', ''topic2''}"
    unfolding s r by (simp_all add: test_round_def insert_commute)
  with z show ?thesis by blast
qed

section \<open>Properties of an interaction round\<close>

text \<open>The round, executed symbolically: one equation per outcome.\<close>

lemma round_after_choice_unfold:
  assumes s: "solve_problem ext prob (world env) = (resp, w3)"
    and e: "teacher_evaluate_student_response ext prob resp w3 = (fb, w4)"
  shows "round_after_choice ext tp diff prob act env =
    (if error_marker resp then
       (None, env\<lparr>world := w3, calls := calls env @ [Solve_Problem prob resp]\<rparr>)
     else if error_marker fb then
       (None, env\<lparr>world := w4,
                  calls := calls env @ [Solve_Problem prob resp,
                                        Evaluate_Student_Response prob resp fb]\<rparr>)
     else
       (Some \<lparr>round_number = current_round_number env, topic = tp, difficulty = diff,
              problem = prob, student_action = act, student_response = resp,
              teacher_feedback = fb, reward = get_reward_from_feedback fb\<rparr>,
        env\<lparr>world := process_feedback ext prob resp fb w4,
            calls := calls env @ [Solve_Problem prob resp,
                                  Evaluate_Student_Response prob resp fb,
                                  Process_Feedback prob resp fb],
            q_learner := update_q_value (q_learner env) tp act
                           (get_reward_from_feedback fb) (Some tp),
            simulation_results := simulation_results env @
              [\<lparr>round_number = current_round_number env, topic = tp, difficulty = diff,
                problem = prob, student_action = act, student_response = resp,
                teacher_feedback = fb, reward = get_reward_from_feedback fb\<rparr>]\<rparr>))"
  using s e by (simp add: round_after_choice_def Let_def)

lemma run_interaction_round_unfold:
  assumes g: "teacher_generate_learning_material ext tp diff (world env) = (prob, w1)"
  shows "run_interaction_round ext tp diff env =
    (if error_marker prob then
       Inr (None, env\<lparr>world := w1, calls := calls env @ [Generate_Learning_Material tp diff prob]\<rparr>)
     else
       (case choose_action ext (q_learner env) tp w1 of
          Inl err \<Rightarrow> Inl err
        | Inr (act, w2) \<Rightarrow>
            Inr (round_after_choice ext tp diff prob act
                   (env\<lparr>calls := calls env @ [Generate_Learning_Material tp diff prob],
                        world := w2\<rparr>))))"
  using g by (simp add: run_interaction_round_def Let_def split: sum.splits prod.splits)

text \<open>What every execution of the second half of a round satisfies.\<close>

lemma round_after_choice_outcome:
  assumes r: "round_after_choice ext tp diff prob act env = (res, env')"
  shows "\<exists>new. calls env' = calls env @ new \<and> new \<noteq> []
           \<and> (\<forall>e \<in> set (butlast new). \<not> failed_call e)
           \<and> (res = None \<longleftrightarrow> failed_call (last new))
           \<and> (res = None \<longrightarrow> q_learner env' = q_learner env
                              \<and> simulation_results env' = simulation_results env)
           \<and> (\<forall>rd. res = Some rd \<longrightarrow> simulation_results env' = simulation_results env @ [rd]
                              \<and> q_learner env' = update_q_value (q_learner env) tp act (reward rd) (Some tp)
                              \<and> reward rd = get_reward_from_feedback (teacher_feedback rd))
           \<and> (\<forall>e \<in> set new. (\<exists>p t. e = Solve_Problem p t) \<or> (\<exists>p a t. e = Evaluate_Student_Response p a t)
                              \<or> (\<exists>p a f. e = Process_Feedback p a f))
           \<and> current_round_number env' = current_round_number env"
proof -
  obtain resp w3 where s: "solve_problem ext prob (world env) = (resp, w3)"
    by (cases "solve_problem ext prob (world env)")
  obtain fb w4 where e: "teacher_evaluate_student_response ext prob resp w3 = (fb, w4)"
    by (cases "teacher_evaluate_student_response ext prob resp w3")
  note u = round_after_choice_unfold [OF s e, of tp diff act]
  consider (a) "error_marker resp" | (b) "\<not> error_marker resp" "error_marker fb"
    | (c) "\<not> error_marker resp" "\<not> error_marker fb"
    by blast
  then show ?thesis
  proof cases
    case a
    with u r have "res = None" "env' = env\<lparr>world := w3, calls := calls env @ [Solve_Problem prob resp]\<rparr>"
      by simp_all
    with a show ?thesis
      by (intro exI [of _ "[Solve_Problem prob resp]"]) (simp add: failed_call_def)
  next
    case b
    with u r have "res = None" "env' = env\<lparr>world := w4,
                  calls := calls env @ [Solve_Problem prob resp,
                                        Evaluate_Student_Response prob resp fb]\<rparr>"
      by simp_all
    with b show ?thesis
      by (intro exI [of _ "[Solve_Problem prob resp, Evaluate_Student_Response prob resp fb]"])
         (simp add: failed_call_def)
  next
    case c
    with u r have "res = Some \<lparr>round_number = current_round_number env, topic = tp, difficulty = diff,
              problem = prob, student_action = act, student_response = resp,
              teacher_feedback = fb, reward = get_reward_from_feedback fb\<rparr>"
       "env' = env\<lparr>world := process_feedback ext prob resp fb w4,
            calls := calls env @ [Solve_Problem prob resp,
                                  Evaluate_Student_Response prob resp fb,
                                  Process_Feedback prob resp fb],
            q_learner := update_q_value (q_learner env) tp act
                           (get_reward_from_feedback fb) (Some tp),
            simulation_results := simulation_results env @
              [\<lparr>round_number = current_round_number env, topic = tp, difficulty = diff,
                problem = prob, student_action = act, student_response = resp,
                teacher_feedback = fb, reward = get_reward_from_feedback fb\<rparr>]\<rparr>"
      by simp_all
    with c show ?thesis
      by (intro exI [of _ "[Solve_Problem prob resp, Evaluate_Student_Response prob resp fb,
                            Process_Feedback prob resp fb]"])
         (simp add: failed_call_def)
  qed
qed

lemma py_random_choice_total:
  assumes "xs \<noteq> []"
  shows "\<exists>x w'. py_random_choice ext xs w = Inr (x, w') \<and> x \<in> set xs"
proof -
  obtain k w' where k: "random_choice ext (length xs) w = (k, w')"
    by (cases "random_choice ext (length xs) w")
  from assms have "xs ! (k mod length xs) \<in> set xs"
    by simp
  with assms k show ?thesis
    by (simp add: py_random_choice_def)
qed

lemma choose_action_total:
  assumes "actions ql \<noteq> []"
  shows "\<exists>a w'. choose_action ext ql s w = Inr (a, w') \<and> a \<in> set (actions ql)"
proof -
  obtain u w1 where u: "random_uniform ext w = (u, w1)"
    by (cases "random_uniform ext w")
  define best where "best = filter (\<lambda>a. get_q_value ql s a = max_q_value ql s) (dict_keys (actions ql))"
  have b: "best_actions ql s = Inr best"
    unfolding best_def by (rule best_actions_eq [OF assms])
  have "set best = tied_actions ql s"
    by (auto simp: best_def tied_actions_def set_dict_keys)
  with tied_actions_nonempty [OF assms, of s] have ne: "best \<noteq> []" and sub: "set best \<subseteq> set (actions ql)"
    by (auto simp: tied_actions_def)
  show ?thesis
  proof (cases "u < epsilon ql")
    case True
    with u py_random_choice_total [OF assms, of ext w1] show ?thesis
      by (simp add: choose_action_def)
  next
    case False
    with u b py_random_choice_total [OF ne, of ext w1] sub show ?thesis
      by (auto simp: choose_action_def)
  qed
qed

lemma update_q_value_actions: "actions (update_q_value ql s a r ns) = actions ql"
  by (simp add: update_q_value_def Let_def)

lemma run_interaction_round_outcome:
  assumes r: "run_interaction_round ext tp diff env = Inr (res, env')"
  shows "\<exists>new. calls env' = calls env @ new \<and> new \<noteq> []
           \<and> (\<forall>e \<in> set (butlast new). \<not> failed_call e)
           \<and> (res = None \<longleftrightarrow> failed_call (last new))
           \<and> (res = None \<longrightarrow> q_learner env' = q_learner env
                              \<and> simulation_results env' = simulation_results env)
           \<and> (\<forall>rd. res = Some rd \<longrightarrow> simulation_results env' = simulation_results env @ [rd]
                              \<and> reward rd = get_reward_from_feedback (teacher_feedback rd))
           \<and> (\<forall>e \<in> set new. (\<exists>t d p. e = Generate_Learning_Material t d p)
                              \<or> (\<exists>p t. e = Solve_Problem p t)
                              \<or> (\<exists>p a t. e = Evaluate_Student_Response p a t)
                              \<or> (\<exists>p a f. e = Process_Feedback p a f))
           \<and> current_round_number env' = current_round_number env
           \<and> actions (q_learner env') = actions (q_learner env)"
proof -
  obtain prob w1 where g: "teacher_generate_learning_material ext tp diff (world env) = (prob, w1)"
    by (cases "teacher_generate_learning_material ext tp diff (world env)")
  note u = run_interaction_round_unfold [OF g]
  show ?thesis
  proof (cases "error_marker prob")
    case True
    with u r have "res = None"
      "env' = env\<lparr>world := w1, calls := calls env @ [Generate_Learning_Material tp diff prob]\<rparr>"
      by simp_all
    with True show ?thesis
      by (intro exI [of _ "[Generate_Learning_Material tp diff prob]"]) (simp add: failed_call_def)
  next
    case False
    with u r obtain act w2 where
      c: "choose_action ext (q_learner env) tp w1 = Inr (act, w2)"
      and a: "round_after_choice ext tp diff prob act
                (env\<lparr>calls := calls env @ [Generate_Learning_Material tp diff prob],
                     world := w2\<rparr>) = (res, env')"
      by (auto split: sum.splits)
    from round_after_choice_outcome [OF a] obtain new where
      n: "calls env' = (calls env @ [Generate_Learning_Material tp diff prob]) @ new" "new \<noteq> []"
         "\<forall>e \<in> set (butlast new). \<not> failed_call e"
         "res = None \<longleftrightarrow> failed_call (last new)"
         "res = None \<longrightarrow> q_learner env' = q_learner env
                              \<and> simulation_results env' = simulation_results env"
         "\<forall>rd. res = Some rd \<longrightarrow> simulation_results env' = simulation_results env @ [rd]
                   \<and> q_learner env' = update_q_value (q_learner env) tp act (reward rd) (Some tp)
                   \<and> reward rd = get_reward_from_feedback (teacher_feedback rd)"
         "\<forall>e \<in> set new. (\<exists>p t. e = Solve_Problem p t) \<or> (\<exists>p a t. e = Evaluate_Student_Response p a t)
                              \<or> (\<exists>p a f. e = Process_Feedback p a f)"
         "current_round_number env' = current_round_number env"
      by auto
    have acts: "actions (q_learner env') = actions (q_learner env)"
    proof (cases res)
      case None
      with n(5) show ?thesis by simp
    next
      case (Some rd)
      with n(6) show ?thesis by (simp add: update_q_value_actions)
    qed
    have nf: "\<not> failed_call (Generate_Learning_Material tp diff prob)"
      using False by (simp add: failed_call_def)
    let ?new = "Generate_Learning_Material tp diff prob # new"
    have 1: "calls env' = calls env @ ?new" using n(1) by simp
    have 2: "?new \<noteq> []" by simp
    have 3: "\<forall>e \<in> set (butlast ?new). \<not> failed_call e" using n(2,3) nf by simp
    have 4: "res = None \<longleftrightarrow> failed_call (last ?new)" using n(2,4) by simp
    have 6: "\<forall>rd. res = Some rd \<longrightarrow> simulation_results env' = simulation_results env @ [rd]
                              \<and> reward rd = get_reward_from_feedback (teacher_feedback rd)"
      using n(6) by blast
    have 7: "\<forall>e \<in> set ?new. (\<exists>t d p. e = Generate_Learning_Material t d p)
                              \<or> (\<exists>p t. e = Solve_Problem p t)
                              \<or> (\<exists>p a t. e = Evaluate_Student_Response p a t)
                              \<or> (\<exists>p a f. e = Process_Feedback p a f)"
      using n(7) by auto
    show ?thesis
      by (intro exI [of _ ?new] conjI) (fact 1 2 3 4 n(5) 6 7 n(8) acts)+
  qed
qed

lemma run_interaction_round_total:
  assumes "actions (q_learner env) \<noteq> []"
  shows "\<exists>res env'. run_interaction_round ext tp diff env = Inr (res, env')"
proof -
  obtain prob w1 where g: "teacher_generate_learning_material ext tp diff (world env) = (prob, w1)"
    by (cases "teacher_generate_learning_material ext tp diff (world env)")
  from choose_action_total [OF assms, of ext tp w1] obtain act w2 where
    "choose_action ext (q_learner env) tp w1 = Inr (act, w2)"
    by blast
  then show ?thesis
    unfolding run_interaction_round_unfold [OF g]
    by (cases "round_after_choice ext tp diff prob act
                   (env\<lparr>calls := calls env @ [Generate_Learning_Material tp diff prob],
                        world := w2\<rparr>)") simp
qed

text \<open>
  Claim C3. A round in which the teacher's problem, the student's solution or the
  teacher's evaluation carries the error marker returns the empty result, and the call
  that returned the marked text is the last call of the round: the later steps do not
  run. The policy and the sequence of results are left as they were, and the loop
  appends no reward to the window for that round.
\<close>

theorem failed_round_is_skipped:
  assumes g: "teacher_generate_learning_material ext tp diff (world env) = (prob, w1)"
  shows "(error_marker prob \<longrightarrow>
            run_interaction_round ext tp diff env =
              Inr (None, env\<lparr>calls := calls env @ [Generate_Learning_Material tp diff prob],
                              world := w1\<rparr>))
       \<and> (\<forall>act w2 resp w3.
            \<not> error_marker prob \<and> choose_action ext (q_learner env) tp w1 = Inr (act, w2)
            \<and> solve_problem ext prob w2 = (resp, w3) \<and> error_marker resp \<longrightarrow>
            run_interaction_round ext tp diff env =
              Inr (None, env\<lparr>calls := calls env @ [Generate_Learning_Material tp diff prob,
                                                     Solve_Problem prob resp],
                              world := w3\<rparr>))
       \<and> (\<forall>act w2 resp w3 fb w4.
            \<not> error_marker prob \<and> choose_action ext (q_learner env) tp w1 = Inr (act, w2)
            \<and> solve_problem ext prob w2 = (resp, w3) \<and> \<not> error_marker resp
            \<and> teacher_evaluate_student_response ext prob resp w3 = (fb, w4) \<and> error_marker fb \<longrightarrow>
            run_interaction_round ext tp diff env =
              Inr (None, env\<lparr>calls := calls env @ [Generate_Learning_Material tp diff prob,
                                                     Solve_Problem prob resp,
                                                     Evaluate_Student_Response prob resp fb],
                              world := w4\<rparr>))
       \<and> (\<forall>env'. run_interaction_round ext tp diff env = Inr (None, env') \<longrightarrow>
            q_learner env' = q_learner env \<and> simulation_results env' = simulation_results env)
       \<and> (\<forall>topics rewards_history env0 tp0 w0 env'.
            py_random_choice ext topics (world env0) = Inr (tp0, w0)
            \<and> run_interaction_round ext tp0 ''medium'' (env0\<lparr>world := w0\<rparr>) = Inr (None, env') \<longrightarrow>
            round_step ext topics rewards_history env0 = Inr (rewards_history, env'))"
proof -
  note u = run_interaction_round_unfold [OF g]
  have 1: "error_marker prob \<longrightarrow>
            run_interaction_round ext tp diff env =
              Inr (None, env\<lparr>calls := calls env @ [Generate_Learning_Material tp diff prob],
                              world := w1\<rparr>)"
    unfolding u by simp
  have 2: "run_interaction_round ext tp diff env =
              Inr (None, env\<lparr>calls := calls env @ [Generate_Learning_Material tp diff prob,
                                                     Solve_Problem prob resp],
                              world := w3\<rparr>)"
    if "\<not> error_marker prob \<and> choose_action ext (q_learner env) tp w1 = Inr (act, w2)
            \<and> solve_problem ext prob w2 = (resp, w3) \<and> error_marker resp"
    for act w2 resp w3
  proof -
    obtain fb w4 where e: "teacher_evaluate_student_response ext prob resp w3 = (fb, w4)"
      by (cases "teacher_evaluate_student_response ext prob resp w3")
    from that have s: "solve_problem ext prob (world (env\<lparr>calls := calls env @ [Generate_Learning_Material tp diff prob],
                        world := w2\<rparr>)) = (resp, w3)"
      by simp
    from that show ?thesis
      unfolding u by (simp add: round_after_choice_unfold [OF s e])
  qed
  have 3: "run_interaction_round ext tp diff env =
              Inr (None, env\<lparr>calls := calls env @ [Generate_Learning_Material tp diff prob,
                                                     Solve_Problem prob resp,
                                                     Evaluate_Student_Response prob resp fb],
                              world := w4\<rparr>)"
    if "\<not> error_marker prob \<and> choose_action ext (q_learner env) tp w1 = Inr (act, w2)
            \<and> solve_problem ext prob w2 = (resp, w3) \<and> \<not> error_marker resp
            \<and> teacher_evaluate_student_response ext prob resp w3 = (fb, w4) \<and> error_marker fb"
    for act w2 resp w3 fb w4
  proof -
    from that have e: "teacher_evaluate_student_response ext prob resp w3 = (fb, w4)"
      by simp
    from that have s: "solve_problem ext prob (world (env\<lparr>calls := calls env @ [Generate_Learning_Material tp diff prob],
                        world := w2\<rparr>)) = (resp, w3)"
      by simp
    from that show ?thesis
      unfolding u by (simp add: round_after_choice_unfold [OF s e])
  qed
  have 4: "q_learner env' = q_learner env \<and> simulation_results env' = simulation_results env"
    if "run_interaction_round ext tp diff env = Inr (None, env')" for env'
    using run_interaction_round_outcome [OF that] by blast
  have 5: "round_step ext topics rewards_history env0 = Inr (rewards_history, env')"
    if "py_random_choice ext topics (world env0) = Inr (tp0, w0)
            \<and> run_interaction_round ext tp0 ''medium'' (env0\<lparr>world := w0\<rparr>) = Inr (None, env')"
    for topics rewards_history env0 tp0 w0 env'
  proof -
    from that have a: "py_random_choice ext topics (world env0) = Inr (tp0, w0)"
      and b: "run_interaction_round ext tp0 ''medium'' (env0\<lparr>world := w0\<rparr>) = Inr (None, env')"
      by blast+
    show ?thesis
      by (simp add: round_step_def a b)
  qed
  from 1 2 3 4 5 show ?thesis
    by blast
qed


lemma fixed_generate [simp]:
  "teacher_generate_learning_material (fixed_collaborators prob resp fb nt) tp diff w = (prob, w)"
  by (simp add: fixed_collaborators_def)

lemma fixed_evaluate [simp]:
  "teacher_evaluate_student_response (fixed_collaborators prob resp fb nt) p r w = (fb, w)"
  by (simp add: fixed_collaborators_def)

lemma fixed_synthesize [simp]:
  "teacher_synthesize_new_topic (fixed_collaborators prob resp fb nt) cur summ w = (nt, w)"
  by (simp add: fixed_collaborators_def)

lemma fixed_teacher_evolve [simp]:
  "teacher_evolve (fixed_collaborators prob resp fb nt) m w = w"
  by (simp add: fixed_collaborators_def)

lemma fixed_generate_response [simp]:
  "ollama_generate_response (fixed_collaborators prob resp fb nt) prompt w = (resp, w)"
  by (simp add: fixed_collaborators_def)

lemma fixed_uniform [simp]:
  "random_uniform (fixed_collaborators prob resp fb nt) w = (1 / 2, w)"
  by (simp add: fixed_collaborators_def)

lemma fixed_choice [simp]:
  "random_choice (fixed_collaborators prob resp fb nt) n w = (w, Suc w)"
  by (simp add: fixed_collaborators_def)

lemma fixed_solve_problem:
  "solve_problem (fixed_collaborators prob resp fb nt) p w =
     (case resp of None \<Rightarrow> ''Error: Could not generate student response.''
      | Some r \<Rightarrow> if r \<noteq> [] then r else ''Error: Could not generate student response.'', w)"
  by (simp add: solve_problem_def Let_def split: option.splits)

lemma test_env_fields [simp]:
  "world test_env = 0" "calls test_env = []" "simulation_results test_env = []"
  "q_learner test_env = test_learner_fresh" "current_round_number test_env = 0"
  by (simp_all add: test_env_def init_LearningEnvironment_def)

lemma test_learner_fresh_fields [simp]:
  "actions test_learner_fresh = test_actions" "epsilon test_learner_fresh = 1 / 10"
  "alpha test_learner_fresh = 1 / 10" "gamma test_learner_fresh = 9 / 10"
  "q_table test_learner_fresh = Map.empty"
  by (simp_all add: test_learner_fresh_def init_LearningEnvironment_def init_QLearningFramework_def)

lemma fixed_choose_action_fresh:
  "choose_action (fixed_collaborators prob resp fb nt) test_learner_fresh s w
     = Inr (test_actions ! (w mod 3), Suc w)"
proof -
  have "best_actions test_learner_fresh s = Inr test_actions"
    by (simp add: best_actions_def q_values_for_state_def test_actions_def get_q_value_def)
  then show ?thesis
    by (simp add: choose_action_def py_random_choice_def test_actions_def)
qed

theorem failed_round_is_skipped_witness:
  "run_interaction_round (fixed_collaborators ''Error: blah'' (Some ''X is Y.'') ''Correct.'' ''t'')
      ''Test Topic'' ''medium'' test_env
     = Inr (None, test_env\<lparr>calls := [Generate_Learning_Material ''Test Topic'' ''medium'' ''Error: blah''],
                           world := 0\<rparr>)
   \<and> run_interaction_round (fixed_collaborators ''What is X?'' (Some ''Error: blah'') ''Correct.'' ''t'')
      ''Test Topic'' ''medium'' test_env
     = Inr (None, test_env\<lparr>calls := [Generate_Learning_Material ''Test Topic'' ''medium'' ''What is X?'',
                                     Solve_Problem ''What is X?'' ''Error: blah''],
                           world := 1\<rparr>)
   \<and> run_interaction_round (fixed_collaborators ''What is X?'' (Some ''X is Y.'') ''Error: blah'' ''t'')
      ''Test Topic'' ''medium'' test_env
     = Inr (None, test_env\<lparr>calls := [Generate_Learning_Material ''Test Topic'' ''medium'' ''What is X?'',
                                     Solve_Problem ''What is X?'' ''X is Y.'',
                                     Evaluate_Student_Response ''What is X?'' ''X is Y.'' ''Error: blah''],
                           world := 1\<rparr>)
   \<and> (\<exists>env'. round_step (fixed_collaborators ''Error: blah'' (Some ''X is Y.'') ''Correct.'' ''t'')
               [''Test Topic''] [1 / 2] test_env = Inr ([1 / 2], env')
        \<and> q_learner env' = q_learner test_env \<and> simulation_results env' = [])"
proof -
  let ?e1 = "fixed_collaborators ''Error: blah'' (Some ''X is Y.'') ''Correct.'' ''t''"
  let ?e2 = "fixed_collaborators ''What is X?'' (Some ''Error: blah'') ''Correct.'' ''t''"
  let ?e3 = "fixed_collaborators ''What is X?'' (Some ''X is Y.'') ''Error: blah'' ''t''"
  have m: "error_marker ''Error: blah''" "\<not> error_marker ''What is X?''" "\<not> error_marker ''X is Y.''"
    by (simp_all add: error_marker_def)
  have g1: "teacher_generate_learning_material ?e1 ''Test Topic'' ''medium'' (world test_env)
              = (''Error: blah'', 0)"
    by simp
  have g2: "teacher_generate_learning_material ?e2 ''Test Topic'' ''medium'' (world test_env)
              = (''What is X?'', 0)"
    by simp
  have g3: "teacher_generate_learning_material ?e3 ''Test Topic'' ''medium'' (world test_env)
              = (''What is X?'', 0)"
    by simp
  have c2: "choose_action ?e2 (q_learner test_env) ''Test Topic'' 0 = Inr (''action1'', 1)"
    by (simp add: fixed_choose_action_fresh test_actions_def)
  have c3: "choose_action ?e3 (q_learner test_env) ''Test Topic'' 0 = Inr (''action1'', 1)"
    by (simp add: fixed_choose_action_fresh test_actions_def)
  have s2: "solve_problem ?e2 ''What is X?'' 1 = (''Error: blah'', 1)"
    by (simp add: fixed_solve_problem)
  have s3: "solve_problem ?e3 ''What is X?'' 1 = (''X is Y.'', 1)"
    by (simp add: fixed_solve_problem)
  have e3: "teacher_evaluate_student_response ?e3 ''What is X?'' ''X is Y.'' 1 = (''Error: blah'', 1)"
    by simp
  from failed_round_is_skipped [OF g1] m
  have r1: "run_interaction_round ?e1 ''Test Topic'' ''medium'' test_env
     = Inr (None, test_env\<lparr>calls := [Generate_Learning_Material ''Test Topic'' ''medium'' ''Error: blah''],
                           world := 0\<rparr>)"
    by simp
  from failed_round_is_skipped [OF g2] m c2 s2
  have r2: "run_interaction_round ?e2 ''Test Topic'' ''medium'' test_env
     = Inr (None, test_env\<lparr>calls := [Generate_Learning_Material ''Test Topic'' ''medium'' ''What is X?'',
                                     Solve_Problem ''What is X?'' ''Error: blah''],
                           world := 1\<rparr>)"
    by simp
  from failed_round_is_skipped [OF g3] m c3 s3 e3
  have r3: "run_interaction_round ?e3 ''Test Topic'' ''medium'' test_env
     = Inr (None, test_env\<lparr>calls := [Generate_Learning_Material ''Test Topic'' ''medium'' ''What is X?'',
                                     Solve_Problem ''What is X?'' ''X is Y.'',
                                     Evaluate_Student_Response ''What is X?'' ''X is Y.'' ''Error: blah''],
                           world := 1\<rparr>)"
    by simp
  have g4: "teacher_generate_learning_material ?e1 ''Test Topic'' ''medium''
              (world (test_env\<lparr>world := 1\<rparr>)) = (''Error: blah'', 1)"
    by simp
  have c4: "py_random_choice ?e1 [''Test Topic''] (world test_env) = Inr (''Test Topic'', 1)"
    by (simp add: py_random_choice_def)
  note thm4 = failed_round_is_skipped [OF g4]
  from thm4 m obtain env' where
    r4: "run_interaction_round ?e1 ''Test Topic'' ''medium'' (test_env\<lparr>world := 1\<rparr>)
           = Inr (None, env')"
    by blast
  with thm4 have u4: "q_learner env' = q_learner (test_env\<lparr>world := 1\<rparr>)
      \<and> simulation_results env' = simulation_results (test_env\<lparr>world := 1\<rparr>)"
    by blast
  from thm4 c4 r4 have rs: "round_step ?e1 [''Test Topic''] [1 / 2] test_env = Inr ([1 / 2], env')"
    by blast
  from u4 have "q_learner env' = q_learner test_env" "simulation_results env' = []"
    by simp_all
  with rs have r5: "\<exists>env'. round_step ?e1 [''Test Topic''] [1 / 2] test_env = Inr ([1 / 2], env')
        \<and> q_learner env' = q_learner test_env \<and> simulation_results env' = []"
    by blast
  from r1 r2 r3 r5 show ?thesis by blast
qed

lemma solve_calls_append: "solve_calls (xs @ ys) = solve_calls xs @ solve_calls ys"
  by (induction xs rule: solve_calls.induct) simp_all

lemma round_after_choice_action_independent:
  assumes r1: "round_after_choice ext tp diff prob a1 env = (res1, env1)"
    and r2: "round_after_choice ext tp diff prob a2 (env\<lparr>q_learner := ql'\<rparr>) = (res2, env2)"
  shows "\<exists>new resp.
      calls env1 = calls env @ new \<and> calls env2 = calls env @ new
    \<and> world env1 = world env2
    \<and> solve_calls new = [(prob, resp)]
    \<and> resp = fst (solve_problem ext prob (world env))
    \<and> res2 = map_option (\<lambda>rd. rd\<lparr>student_action := a2\<rparr>) res1
    \<and> map_option student_response res1 = map_option student_response res2
    \<and> map_option student_action res1 = map_option (\<lambda>rd. a1) res1"
proof -
  obtain resp w3 where s: "solve_problem ext prob (world env) = (resp, w3)"
    by (cases "solve_problem ext prob (world env)")
  obtain fb w4 where e: "teacher_evaluate_student_response ext prob resp w3 = (fb, w4)"
    by (cases "teacher_evaluate_student_response ext prob resp w3")
  have s': "solve_problem ext prob (world (env\<lparr>q_learner := ql'\<rparr>)) = (resp, w3)"
    using s by simp
  note u1 = r1 [unfolded round_after_choice_unfold [OF s e, of tp diff a1]]
  note u2 = r2 [unfolded round_after_choice_unfold [OF s' e, of tp diff a2]]
  consider (a) "error_marker resp" | (b) "\<not> error_marker resp" "error_marker fb"
    | (c) "\<not> error_marker resp" "\<not> error_marker fb"
    by blast
  then show ?thesis
  proof cases
    case a
    with u1 u2 have "res1 = None" "res2 = None"
      "env1 = env\<lparr>world := w3, calls := calls env @ [Solve_Problem prob resp]\<rparr>"
      "env2 = env\<lparr>q_learner := ql', world := w3, calls := calls env @ [Solve_Problem prob resp]\<rparr>"
      by simp_all
    with s show ?thesis
      by (intro exI [of _ "[Solve_Problem prob resp]"] exI [of _ resp]) simp
  next
    case b
    with u1 u2 have "res1 = None" "res2 = None"
      "env1 = env\<lparr>world := w4, calls := calls env @ [Solve_Problem prob resp,
                                        Evaluate_Student_Response prob resp fb]\<rparr>"
      "env2 = env\<lparr>q_learner := ql', world := w4, calls := calls env @ [Solve_Problem prob resp,
                                        Evaluate_Student_Response prob resp fb]\<rparr>"
      by simp_all
    with s show ?thesis
      by (intro exI [of _ "[Solve_Problem prob resp, Evaluate_Student_Response prob resp fb]"]
            exI [of _ resp]) simp
  next
    case c
    with u1 have "res1 = Some \<lparr>round_number = current_round_number env, topic = tp, difficulty = diff,
              problem = prob, student_action = a1, student_response = resp,
              teacher_feedback = fb, reward = get_reward_from_feedback fb\<rparr>"
      "world env1 = process_feedback ext prob resp fb w4"
      "calls env1 = calls env @ [Solve_Problem prob resp,
                                  Evaluate_Student_Response prob resp fb,
                                  Process_Feedback prob resp fb]"
      by auto
    moreover from c u2 have "res2 = Some \<lparr>round_number = current_round_number env, topic = tp, difficulty = diff,
              problem = prob, student_action = a2, student_response = resp,
              teacher_feedback = fb, reward = get_reward_from_feedback fb\<rparr>"
      "world env2 = process_feedback ext prob resp fb w4"
      "calls env2 = calls env @ [Solve_Problem prob resp,
                                  Evaluate_Student_Response prob resp fb,
                                  Process_Feedback prob resp fb]"
      by auto
    ultimately show ?thesis
      using s
      by (intro exI [of _ "[Solve_Problem prob resp, Evaluate_Student_Response prob resp fb,
                            Process_Feedback prob resp fb]"] exI [of _ resp]) simp
  qed
qed

text \<open>
  Claim C9. The student's solving step receives the problem text alone. Take two
  executions of a round from the same state in which \<open>choose_action\<close> returns different
  actions (the policies may differ, the problem and the state of the world after the
  choice are the same). Both make the same calls on the collaborators with the same
  arguments and the same returned texts; \<open>solve_problem\<close> is called exactly once, with the
  problem as its argument, and returns the same response; the world is left in the same
  state. The two results differ at most in the recorded action (and the two policies in
  the entry that is updated).
\<close>

theorem student_attempt_independent_of_action:
  assumes g: "teacher_generate_learning_material ext tp diff (world env) = (prob, w1)"
    and n: "\<not> error_marker prob"
    and c1: "choose_action ext (q_learner env) tp w1 = Inr (a1, w2)"
    and c2: "choose_action ext ql' tp w1 = Inr (a2, w2)"
  shows "\<exists>res1 env1 res2 env2 new resp.
      run_interaction_round ext tp diff env = Inr (res1, env1)
    \<and> run_interaction_round ext tp diff (env\<lparr>q_learner := ql'\<rparr>) = Inr (res2, env2)
    \<and> calls env1 = calls env @ new \<and> calls env2 = calls env @ new
    \<and> world env1 = world env2
    \<and> solve_calls new = [(prob, resp)]
    \<and> resp = fst (solve_problem ext prob w2)
    \<and> res2 = map_option (\<lambda>rd. rd\<lparr>student_action := a2\<rparr>) res1
    \<and> map_option student_response res1 = map_option student_response res2
    \<and> map_option student_action res1 = map_option (\<lambda>rd. a1) res1"
proof -
  let ?env = "env\<lparr>calls := calls env @ [Generate_Learning_Material tp diff prob], world := w2\<rparr>"
  have g': "teacher_generate_learning_material ext tp diff (world (env\<lparr>q_learner := ql'\<rparr>)) = (prob, w1)"
    using g by simp
  obtain res1 env1 where r1: "round_after_choice ext tp diff prob a1 ?env = (res1, env1)"
    by (cases "round_after_choice ext tp diff prob a1 ?env")
  obtain res2 env2 where r2: "round_after_choice ext tp diff prob a2 (?env\<lparr>q_learner := ql'\<rparr>) = (res2, env2)"
    by (cases "round_after_choice ext tp diff prob a2 (?env\<lparr>q_learner := ql'\<rparr>)")
  have e1: "run_interaction_round ext tp diff env = Inr (res1, env1)"
    unfolding run_interaction_round_unfold [OF g] using n c1 r1 by simp
  have eq: "env\<lparr>q_learner := ql', calls := cs, world := w2\<rparr>
              = env\<lparr>calls := cs, world := w2, q_learner := ql'\<rparr>" for cs
    by simp
  have e2: "run_interaction_round ext tp diff (env\<lparr>q_learner := ql'\<rparr>) = Inr (res2, env2)"
    unfolding run_interaction_round_unfold [OF g'] using n c2 r2 by (simp add: eq)
  from round_after_choice_action_independent [OF r1 r2] obtain new resp where
    p: "calls env1 = calls ?env @ new" "calls env2 = calls ?env @ new"
       "world env1 = world env2"
       "solve_calls new = [(prob, resp)]"
       "resp = fst (solve_problem ext prob (world ?env))"
       "res2 = map_option (\<lambda>rd. rd\<lparr>student_action := a2\<rparr>) res1"
       "map_option student_response res1 = map_option student_response res2"
       "map_option student_action res1 = map_option (\<lambda>rd. a1) res1"
    by blast
  let ?new = "Generate_Learning_Material tp diff prob # new"
  have q: "calls env1 = calls env @ ?new" "calls env2 = calls env @ ?new"
    "solve_calls ?new = [(prob, resp)]" "resp = fst (solve_problem ext prob w2)"
    using p by simp_all
  show ?thesis
    by (intro exI [of _ res1] exI [of _ env1] exI [of _ res2] exI [of _ env2]
          exI [of _ ?new] exI [of _ resp] conjI)
       (fact e1 e2 q p)+
qed


lemma fixed_choose_action_greedy:
  "choose_action (fixed_collaborators prob resp fb nt) test_learner_greedy ''test_state'' w
     = Inr (''action2'', Suc w)"
proof -
  have "best_actions test_learner_greedy ''test_state'' = Inr [''action2'']"
    by (simp add: best_actions_def q_values_for_state_def test_actions_def get_q_value_def
          test_learner_greedy_def)
  then show ?thesis
    by (simp add: choose_action_def py_random_choice_def test_learner_greedy_def)
qed

theorem student_attempt_independent_of_action_witness:
  "teacher_generate_learning_material test_collaborators ''test_state'' ''medium'' (world test_env)
     = (''problem'', 0)
   \<and> \<not> error_marker ''problem''
   \<and> choose_action test_collaborators (q_learner test_env) ''test_state'' 0 = Inr (''action1'', 1)
   \<and> choose_action test_collaborators test_learner_greedy ''test_state'' 0 = Inr (''action2'', 1)
   \<and> (\<exists>res1 env1 res2 env2 new.
        run_interaction_round test_collaborators ''test_state'' ''medium'' test_env = Inr (res1, env1)
      \<and> run_interaction_round test_collaborators ''test_state'' ''medium''
            (test_env\<lparr>q_learner := test_learner_greedy\<rparr>) = Inr (res2, env2)
      \<and> calls env1 = calls test_env @ new \<and> calls env2 = calls test_env @ new
      \<and> world env1 = world env2
      \<and> solve_calls new = [(''problem'', ''response'')]
      \<and> res2 = map_option (\<lambda>rd. rd\<lparr>student_action := ''action2''\<rparr>) res1)"
proof -
  have g: "teacher_generate_learning_material test_collaborators ''test_state'' ''medium'' (world test_env)
     = (''problem'', 0)"
    by (simp add: test_collaborators_def)
  have n: "\<not> error_marker ''problem''"
    by (simp add: error_marker_def)
  have c1: "choose_action test_collaborators (q_learner test_env) ''test_state'' 0 = Inr (''action1'', 1)"
    by (simp add: test_collaborators_def fixed_choose_action_fresh test_actions_def)
  have c2: "choose_action test_collaborators test_learner_greedy ''test_state'' 0 = Inr (''action2'', 1)"
    by (simp add: test_collaborators_def fixed_choose_action_greedy)
  have s: "fst (solve_problem test_collaborators ''problem'' 1) = ''response''"
    by (simp add: test_collaborators_def fixed_solve_problem)
  from student_attempt_independent_of_action [OF g n c1 c2]
  obtain res1 env1 res2 env2 new resp where
    p: "run_interaction_round test_collaborators ''test_state'' ''medium'' test_env = Inr (res1, env1)"
       "run_interaction_round test_collaborators ''test_state'' ''medium''
            (test_env\<lparr>q_learner := test_learner_greedy\<rparr>) = Inr (res2, env2)"
       "calls env1 = calls test_env @ new" "calls env2 = calls test_env @ new"
       "world env1 = world env2"
       "solve_calls new = [(''problem'', resp)]"
       "resp = fst (solve_problem test_collaborators ''problem'' 1)"
       "res2 = map_option (\<lambda>rd. rd\<lparr>student_action := ''action2''\<rparr>) res1"
    by blast
  from p(6,7) s have q: "solve_calls new = [(''problem'', ''response'')]"
    by simp
  have "\<exists>res1 env1 res2 env2 new.
        run_interaction_round test_collaborators ''test_state'' ''medium'' test_env = Inr (res1, env1)
      \<and> run_interaction_round test_collaborators ''test_state'' ''medium''
            (test_env\<lparr>q_learner := test_learner_greedy\<rparr>) = Inr (res2, env2)
      \<and> calls env1 = calls test_env @ new \<and> calls env2 = calls test_env @ new
      \<and> world env1 = world env2
      \<and> solve_calls new = [(''problem'', ''response'')]
      \<and> res2 = map_option (\<lambda>rd. rd\<lparr>student_action := ''action2''\<rparr>) res1"
    by (intro exI [of _ res1] exI [of _ env1] exI [of _ res2] exI [of _ env2] exI [of _ new] conjI)
       (fact p q)+
  with g n c1 c2 show ?thesis
    by blast
qed

section \<open>The failure test\<close>

lemma error_marker_iff: "error_marker text \<longleftrightarrow> (\<exists>before after. text = before @ ''Error'' @ after)"
  by (simp add: error_marker_def str_in_iff)

lemma synthesize_step_unfold:
  assumes "teacher_synthesize_new_topic ext
             (if topics \<noteq> [] then last topics else ''general knowledge'')
             (student_performance_summary ext rewards_history) (world env) = (new_topic, w')"
  shows "synthesize_step ext topics rewards_history env =
     (if new_topic \<noteq> [] \<and> \<not> error_marker new_topic \<and> new_topic \<notin> set topics
      then topics @ [new_topic] else topics,
      env\<lparr>world := w',
          calls := calls env @ [Synthesize_New_Topic
             (if topics \<noteq> [] then last topics else ''general knowledge'')
             (student_performance_summary ext rewards_history) new_topic]\<rparr>)"
  using assms by (simp add: synthesize_step_def Let_def)

lemma solve_problem_failure_text:
  assumes "fst (ollama_generate_response ext prompt w) = None
           \<or> fst (ollama_generate_response ext prompt w) = Some []"
    and "prompt = ''You are a student. Here is a problem: '' @ prob @ newline @ newline
                   @ ''Provide a clear and concise answer or solution to the problem.''"
  shows "fst (solve_problem ext prob w) = ''Error: Could not generate student response.''"
  using assms
  by (cases "ollama_generate_response ext prompt w")
     (auto simp: solve_problem_def Let_def split: option.splits)

lemma run_interaction_round_success:
  assumes g: "teacher_generate_learning_material ext tp diff (world env) = (prob, w1)"
    and n: "\<not> error_marker prob"
    and c: "choose_action ext (q_learner env) tp w1 = Inr (act, w2)"
    and s: "solve_problem ext prob w2 = (resp, w3)"
    and nr: "\<not> error_marker resp"
    and e: "teacher_evaluate_student_response ext prob resp w3 = (fb, w4)"
    and nf: "\<not> error_marker fb"
  shows "\<exists>env'. run_interaction_round ext tp diff env =
           Inr (Some \<lparr>round_number = current_round_number env, topic = tp, difficulty = diff,
                      problem = prob, student_action = act, student_response = resp,
                      teacher_feedback = fb, reward = get_reward_from_feedback fb\<rparr>, env')
         \<and> calls env' = calls env @ [Generate_Learning_Material tp diff prob,
                                      Solve_Problem prob resp,
                                      Evaluate_Student_Response prob resp fb,
                                      Process_Feedback prob resp fb]
         \<and> world env' = process_feedback ext prob resp fb w4
         \<and> q_learner env' = update_q_value (q_learner env) tp act
                               (get_reward_from_feedback fb) (Some tp)
         \<and> simulation_results env' = simulation_results env @
              [\<lparr>round_number = current_round_number env, topic = tp, difficulty = diff,
                problem = prob, student_action = act, student_response = resp,
                teacher_feedback = fb, reward = get_reward_from_feedback fb\<rparr>]
         \<and> current_round_number env' = current_round_number env"
proof -
  have s': "solve_problem ext prob
              (world (env\<lparr>calls := calls env @ [Generate_Learning_Material tp diff prob],
                          world := w2\<rparr>)) = (resp, w3)"
    using s by simp
  show ?thesis
    unfolding run_interaction_round_unfold [OF g]
    using n c nr nf by (simp add: round_after_choice_unfold [OF s' e])
qed

text \<open>
  Claim C10. The failure test is the case-sensitive substring test: a text fails exactly
  when it can be split as \<open>before @ ''Error'' @ after\<close>. A round that returns returns the
  empty result exactly when one of the texts returned to it by a collaborator passes this
  test, whatever else the text says; a synthesized topic is appended exactly when it is
  non-empty, does not pass the test and is not yet in the curriculum. The student's own
  failure text carries the marker. So a legitimate text that mentions \<open>Error\<close> is treated
  as a failure, and a failure text written \<open>error\<close> is treated as a success.
\<close>

theorem error_marker_is_case_sensitive_substring_test:
  "(error_marker text \<longleftrightarrow> (\<exists>before after. text = before @ ''Error'' @ after))
   \<and> (\<forall>res env'. run_interaction_round ext tp diff env = Inr (res, env') \<longrightarrow>
        (res = None \<longleftrightarrow> (\<exists>e \<in> set (drop (length (calls env)) (calls env')). failed_call e)))
   \<and> (\<forall>new_topic w'.
        teacher_synthesize_new_topic ext
             (if topics \<noteq> [] then last topics else ''general knowledge'')
             (student_performance_summary ext rewards_history) (world env) = (new_topic, w') \<longrightarrow>
        fst (synthesize_step ext topics rewards_history env) =
          (if new_topic \<noteq> [] \<and> \<not> error_marker new_topic \<and> new_topic \<notin> set topics
           then topics @ [new_topic] else topics))
   \<and> error_marker ''Error: Could not generate student response.''
   \<and> error_marker ''Explain Error handling in Python.''
   \<and> \<not> error_marker ''error: could not generate learning material.''
   \<and> \<not> error_marker ''ERROR: could not generate learning material.''"
proof -
  have 2: "res = None \<longleftrightarrow> (\<exists>e \<in> set (drop (length (calls env)) (calls env')). failed_call e)"
    if "run_interaction_round ext tp diff env = Inr (res, env')" for res env'
  proof -
    from run_interaction_round_outcome [OF that] obtain new where
      n: "calls env' = calls env @ new" "new \<noteq> []"
         "\<forall>e \<in> set (butlast new). \<not> failed_call e"
         "res = None \<longleftrightarrow> failed_call (last new)"
      by blast
    from n(2) have "set new = insert (last new) (set (butlast new))"
      by (metis append_butlast_last_id list.simps(15) rotate1.simps(2) set_rotate1)
    with n(3) have "(\<exists>e \<in> set new. failed_call e) \<longleftrightarrow> failed_call (last new)"
      by auto
    with n(1,4) show ?thesis
      by simp
  qed
  have 3: "fst (synthesize_step ext topics rewards_history env) =
          (if new_topic \<noteq> [] \<and> \<not> error_marker new_topic \<and> new_topic \<notin> set topics
           then topics @ [new_topic] else topics)"
    if "teacher_synthesize_new_topic ext
             (if topics \<noteq> [] then last topics else ''general knowledge'')
             (student_performance_summary ext rewards_history) (world env) = (new_topic, w')"
    for new_topic w'
    unfolding synthesize_step_unfold [OF that] by simp
  have 4: "error_marker ''Error: Could not generate student response.''"
    "error_marker ''Explain Error handling in Python.''"
    "\<not> error_marker ''error: could not generate learning material.''"
    "\<not> error_marker ''ERROR: could not generate learning material.''"
    by (simp_all add: error_marker_def)
  from error_marker_iff [of "text"] 2 3 4 show ?thesis
    by blast
qed


theorem error_marker_is_case_sensitive_substring_test_witness:
  "(\<exists>env'. run_interaction_round
        (fixed_collaborators ''Explain Error handling in Python.'' (Some ''response'') ''Correct.'' ''t'')
        ''Python'' ''medium'' test_env = Inr (None, env')
      \<and> calls env' = [Generate_Learning_Material ''Python'' ''medium''
                         ''Explain Error handling in Python.'']
      \<and> simulation_results env' = [])
   \<and> (\<exists>rd env'. run_interaction_round
        (fixed_collaborators ''error: could not generate learning material.'' (Some ''response'')
           ''Correct.'' ''t'')
        ''Python'' ''medium'' test_env = Inr (Some rd, env')
      \<and> problem rd = ''error: could not generate learning material.''
      \<and> simulation_results env' = [rd])
   \<and> fst (synthesize_step (fixed_collaborators ''p'' (Some ''r'') ''f'' ''Error Analysis'')
            [''topic1''] [] test_env) = [''topic1'']
   \<and> fst (synthesize_step
            (fixed_collaborators ''p'' (Some ''r'') ''f'' ''error: could not synthesize new topic.'')
            [''topic1''] [] test_env) = [''topic1'', ''error: could not synthesize new topic.'']"
proof -
  let ?e1 = "fixed_collaborators ''Explain Error handling in Python.'' (Some ''response'') ''Correct.'' ''t''"
  let ?e2 = "fixed_collaborators ''error: could not generate learning material.'' (Some ''response'')
           ''Correct.'' ''t''"
  let ?e3 = "fixed_collaborators ''p'' (Some ''r'') ''f'' ''Error Analysis''"
  let ?e4 = "fixed_collaborators ''p'' (Some ''r'') ''f'' ''error: could not synthesize new topic.''"
  note thm1 = error_marker_is_case_sensitive_substring_test
                [of "''Explain Error handling in Python.''" ?e1 "''Python''" "''medium''" test_env]
  note thm2 = error_marker_is_case_sensitive_substring_test
                [of "''x''" ?e2 "''Python''" "''medium''" test_env]
  note thm3 = error_marker_is_case_sensitive_substring_test
                [of "''x''" ?e3 "''Python''" "''medium''" test_env "[''topic1'']" "[]"]
  note thm4 = error_marker_is_case_sensitive_substring_test
                [of "''x''" ?e4 "''Python''" "''medium''" test_env "[''topic1'']" "[]"]
  have m: "error_marker ''Explain Error handling in Python.''"
    "\<not> error_marker ''error: could not generate learning material.''"
    "\<not> error_marker ''response''" "\<not> error_marker ''Correct.''"
    "error_marker ''Error Analysis''" "\<not> error_marker ''error: could not synthesize new topic.''"
    by (simp_all add: error_marker_def)
  \<comment> \<open>a legitimate problem text that mentions the marker\<close>
  have g1: "teacher_generate_learning_material ?e1 ''Python'' ''medium'' (world test_env)
              = (''Explain Error handling in Python.'', 0)"
    by simp
  from run_interaction_round_total [of test_env ?e1 "''Python''" "''medium''"]
  obtain res1 env1 where r1: "run_interaction_round ?e1 ''Python'' ''medium'' test_env = Inr (res1, env1)"
    by (auto simp: test_actions_def)
  have c1: "calls env1 = [Generate_Learning_Material ''Python'' ''medium''
                         ''Explain Error handling in Python.'']"
    "simulation_results env1 = []"
    using r1 m(1) unfolding run_interaction_round_unfold [OF g1] by auto
  from thm1 r1 have "res1 = None \<longleftrightarrow> (\<exists>e \<in> set (drop (length (calls test_env)) (calls env1)). failed_call e)"
    by blast
  with c1 m(1) have "res1 = None"
    by (simp add: failed_call_def)
  with r1 c1 have w1: "\<exists>env'. run_interaction_round ?e1 ''Python'' ''medium'' test_env = Inr (None, env')
      \<and> calls env' = [Generate_Learning_Material ''Python'' ''medium''
                         ''Explain Error handling in Python.'']
      \<and> simulation_results env' = []"
    by blast
  \<comment> \<open>a failure text in lower case\<close>
  have g2: "teacher_generate_learning_material ?e2 ''Python'' ''medium'' (world test_env)
              = (''error: could not generate learning material.'', 0)"
    by simp
  from run_interaction_round_total [of test_env ?e2 "''Python''" "''medium''"]
  obtain res2 env2 where r2: "run_interaction_round ?e2 ''Python'' ''medium'' test_env = Inr (res2, env2)"
    by (auto simp: test_actions_def)
  have ch2: "choose_action ?e2 (q_learner test_env) ''Python'' 0 = Inr (''action1'', 1)"
    by (simp add: fixed_choose_action_fresh test_actions_def)
  have s2: "solve_problem ?e2 ''error: could not generate learning material.'' 1 = (''response'', 1)"
    by (simp add: fixed_solve_problem)
  have e2: "teacher_evaluate_student_response ?e2 ''error: could not generate learning material.''
              ''response'' 1 = (''Correct.'', 1)"
    by simp
  from run_interaction_round_success [OF g2 m(2) ch2 s2 m(3) e2 m(4)] r2
  have c2: "calls env2 = calls test_env @
                         [Generate_Learning_Material ''Python'' ''medium''
                            ''error: could not generate learning material.'',
                          Solve_Problem ''error: could not generate learning material.'' ''response'',
                          Evaluate_Student_Response ''error: could not generate learning material.''
                            ''response'' ''Correct.'',
                          Process_Feedback ''error: could not generate learning material.''
                            ''response'' ''Correct.'']"
    and p2: "map_option problem res2 = Some ''error: could not generate learning material.''"
    by auto
  from thm2 r2 have "res2 = None \<longleftrightarrow> (\<exists>e \<in> set (drop (length (calls test_env)) (calls env2)). failed_call e)"
    by blast
  with c2 m have "res2 \<noteq> None"
    by (simp add: failed_call_def)
  then obtain rd where rd: "res2 = Some rd"
    by blast
  from run_interaction_round_outcome [OF r2] rd have sr: "simulation_results env2 = [rd]"
    by auto
  from p2 rd have "problem rd = ''error: could not generate learning material.''"
    by simp
  with r2 rd sr have w2: "\<exists>rd env'. run_interaction_round ?e2 ''Python'' ''medium'' test_env = Inr (Some rd, env')
      \<and> problem rd = ''error: could not generate learning material.''
      \<and> simulation_results env' = [rd]"
    by blast
  \<comment> \<open>synthesized topics\<close>
  from thm3 m(5) have w3: "fst (synthesize_step ?e3 [''topic1''] [] test_env) = [''topic1'']"
    by simp
  from thm4 m(6) have w4: "fst (synthesize_step ?e4 [''topic1''] [] test_env)
           = [''topic1'', ''error: could not synthesize new topic.'']"
    by simp
  from w1 w2 w3 w4 show ?thesis
    by blast
qed

section \<open>Properties of the simulation loop\<close>

lemma synthesize_calls_append:
  "synthesize_calls (xs @ ys) = synthesize_calls xs @ synthesize_calls ys"
  by (induction xs rule: synthesize_calls.induct) simp_all

lemma teacher_evolve_calls_append:
  "teacher_evolve_calls (xs @ ys) = teacher_evolve_calls xs @ teacher_evolve_calls ys"
  by (induction xs rule: teacher_evolve_calls.induct) simp_all

lemma student_evolve_calls_append:
  "student_evolve_calls (xs @ ys) = student_evolve_calls xs @ student_evolve_calls ys"
  by (induction xs rule: student_evolve_calls.induct) simp_all

lemma round_events_no_side_calls:
  assumes "\<forall>e \<in> set es. round_event e"
  shows "synthesize_calls es = [] \<and> teacher_evolve_calls es = [] \<and> student_evolve_calls es = []"
  using assms by (induction es) (auto simp: round_event_def)

lemma growth_due_eq:
  "growth_due evolution_interval i =
     (if i > 0 \<and> evolution_interval div 2 = 0 then Inl ZeroDivisionError
      else Inr (growth_condition evolution_interval i))"
  by (simp add: growth_due_def growth_condition_def)

lemma half_interval_nonzero: "2 \<le> (n::int) \<Longrightarrow> n div 2 \<noteq> 0"
  by presburger

lemma growth_due_defined:
  "2 \<le> evolution_interval \<Longrightarrow> growth_due evolution_interval i = Inr (growth_condition evolution_interval i)"
  by (simp add: growth_due_eq half_interval_nonzero)

lemma synthesize_step_outcome:
  assumes "synthesize_step ext topics rewards_history env = (topics', env')"
  shows "\<exists>new_topic.
           calls env' = calls env @ [Synthesize_New_Topic
             (if topics \<noteq> [] then last topics else ''general knowledge'')
             (student_performance_summary ext rewards_history) new_topic]
         \<and> topics' = (if new_topic \<noteq> [] \<and> \<not> error_marker new_topic \<and> new_topic \<notin> set topics
                      then topics @ [new_topic] else topics)
         \<and> q_learner env' = q_learner env
         \<and> simulation_results env' = simulation_results env
         \<and> current_round_number env' = current_round_number env"
proof -
  obtain new_topic w' where t: "teacher_synthesize_new_topic ext
             (if topics \<noteq> [] then last topics else ''general knowledge'')
             (student_performance_summary ext rewards_history) (world env) = (new_topic, w')"
    by (cases "teacher_synthesize_new_topic ext
             (if topics \<noteq> [] then last topics else ''general knowledge'')
             (student_performance_summary ext rewards_history) (world env)")
  from assms [unfolded synthesize_step_unfold [OF t]] show ?thesis
    by (intro exI [of _ new_topic]) auto
qed

lemma growth_check_outcome:
  assumes "growth_check ext evolution_interval i topics rewards_history env = Inr (topics', env')"
  shows "\<exists>new. calls env' = calls env @ new
         \<and> length (synthesize_calls new) = (if growth_condition evolution_interval i then 1 else 0)
         \<and> teacher_evolve_calls new = [] \<and> student_evolve_calls new = []
         \<and> (topics' = topics
             \<or> (\<exists>t. topics' = topics @ [t] \<and> t \<noteq> [] \<and> \<not> error_marker t \<and> t \<notin> set topics
                    \<and> growth_condition evolution_interval i
                    \<and> (\<exists>cur summ. synthesize_calls new = [(cur, summ, t)])))
         \<and> q_learner env' = q_learner env
         \<and> simulation_results env' = simulation_results env
         \<and> current_round_number env' = current_round_number env"
proof (cases "growth_condition evolution_interval i")
  case False
  with assms have "topics' = topics" "env' = env"
    by (auto simp: growth_check_def growth_due_eq split: if_splits)
  with False show ?thesis
    by (intro exI [of _ "[]"]) simp
next
  case True
  with assms have "synthesize_step ext topics rewards_history env = (topics', env')"
    by (auto simp: growth_check_def growth_due_eq split: if_splits)
  from synthesize_step_outcome [OF this] obtain new_topic where
    n: "calls env' = calls env @ [Synthesize_New_Topic
             (if topics \<noteq> [] then last topics else ''general knowledge'')
             (student_performance_summary ext rewards_history) new_topic]"
       "topics' = (if new_topic \<noteq> [] \<and> \<not> error_marker new_topic \<and> new_topic \<notin> set topics
                      then topics @ [new_topic] else topics)"
       "q_learner env' = q_learner env"
       "simulation_results env' = simulation_results env"
       "current_round_number env' = current_round_number env"
    by blast
  with True show ?thesis
    by (intro exI [of _ "[Synthesize_New_Topic
             (if topics \<noteq> [] then last topics else ''general knowledge'')
             (student_performance_summary ext rewards_history) new_topic]"]) auto
qed

lemma round_step_outcome:
  assumes "round_step ext topics rewards_history env = Inr (rewards_history', env')"
  shows "\<exists>new recs. calls env' = calls env @ new
         \<and> synthesize_calls new = [] \<and> teacher_evolve_calls new = [] \<and> student_evolve_calls new = []
         \<and> simulation_results env' = simulation_results env @ recs
         \<and> length recs \<le> 1
         \<and> rewards_history' = rewards_history @ map reward recs
         \<and> actions (q_learner env') = actions (q_learner env)"
proof -
  from assms obtain tp w0 where ch: "py_random_choice ext topics (world env) = Inr (tp, w0)"
    by (auto simp: round_step_def split: sum.splits)
  with assms obtain res where
    r: "run_interaction_round ext tp ''medium'' (env\<lparr>world := w0\<rparr>) = Inr (res, env')"
    and h: "rewards_history' = (case res of None \<Rightarrow> rewards_history
                                | Some rd \<Rightarrow> rewards_history @ [reward rd])"
    by (auto simp: round_step_def split: sum.splits option.splits)
  from run_interaction_round_outcome [OF r] obtain new where
    n: "calls env' = calls env @ new"
       "res = None \<longrightarrow> simulation_results env' = simulation_results env"
       "\<forall>rd. res = Some rd \<longrightarrow> simulation_results env' = simulation_results env @ [rd]"
       "\<forall>e \<in> set new. round_event e"
       "actions (q_learner env') = actions (q_learner env)"
    unfolding round_event_def by auto
  note ev = round_events_no_side_calls [OF n(4)]
  show ?thesis
  proof (cases res)
    case None
    with n h ev show ?thesis
      by (intro exI [of _ new] exI [of _ "[]"]) simp
  next
    case (Some rd)
    with n h ev show ?thesis
      by (intro exI [of _ new] exI [of _ "[rd]"]) simp
  qed
qed

lemma evolution_check_outcome:
  assumes "evolution_check ext evolution_interval i rewards_history env = Inr (rewards_history', env')"
  shows "\<exists>new. calls env' = calls env @ new
         \<and> synthesize_calls new = []
         \<and> (if evolution_condition evolution_interval i \<and> rewards_history \<noteq> []
             then rewards_history' = [] \<and> new = [Teacher_Evolve (mean rewards_history),
                                                  Student_Evolve (mean rewards_history)]
             else rewards_history' = rewards_history \<and> new = [])
         \<and> q_learner env' = q_learner env
         \<and> simulation_results env' = simulation_results env"
proof (cases "evolution_condition evolution_interval i \<and> rewards_history \<noteq> []")
  case True
  with assms show ?thesis
    by (intro exI [of _ "[Teacher_Evolve (mean rewards_history),
                          Student_Evolve (mean rewards_history)]"])
       (auto simp: evolution_check_def evolution_condition_def mean_def Let_def split: if_splits)
next
  case False
  with assms show ?thesis
    by (intro exI [of _ "[]"])
       (auto simp: evolution_check_def evolution_condition_def split: if_splits)
qed

lemma emit_progress_outcome:
  "\<exists>new. calls (emit_progress socketio c t env) = calls env @ new
       \<and> synthesize_calls new = [] \<and> teacher_evolve_calls new = [] \<and> student_evolve_calls new = []
       \<and> q_learner (emit_progress socketio c t env) = q_learner env
       \<and> simulation_results (emit_progress socketio c t env) = simulation_results env"
proof (cases socketio)
  case None
  then show ?thesis
    by (intro exI [of _ "[]"]) (simp add: emit_progress_def)
next
  case (Some emit)
  then show ?thesis
    by (intro exI [of _ "[Emit_Progress c t]"]) (simp add: emit_progress_def)
qed

text \<open>The contract of one pass through the loop body.\<close>

lemma loop_body_outcome:
  assumes "loop_body ext num_rounds evolution_interval socketio i (topics, rewards_history, env)
             = Inr (topics', rewards_history', env')"
  shows "\<exists>new recs. calls env' = calls env @ new
    \<and> length (synthesize_calls new) = (if growth_condition evolution_interval i then 1 else 0)
    \<and> simulation_results env' = simulation_results env @ recs \<and> length recs \<le> 1
    \<and> (if evolution_condition evolution_interval i \<and> rewards_history @ map reward recs \<noteq> []
        then rewards_history' = []
           \<and> teacher_evolve_calls new = [mean (rewards_history @ map reward recs)]
           \<and> student_evolve_calls new = [mean (rewards_history @ map reward recs)]
        else rewards_history' = rewards_history @ map reward recs
           \<and> teacher_evolve_calls new = [] \<and> student_evolve_calls new = [])
    \<and> (topics' = topics
        \<or> (\<exists>t. topics' = topics @ [t] \<and> t \<noteq> [] \<and> \<not> error_marker t \<and> t \<notin> set topics
               \<and> (\<exists>cur summ. synthesize_calls new = [(cur, summ, t)])))
    \<and> actions (q_learner env') = actions (q_learner env)"
proof -
  let ?env0 = "emit_progress socketio (i + 1) num_rounds (env\<lparr>current_round_number := i + 1\<rparr>)"
  from assms obtain env1 where
    g: "growth_check ext evolution_interval i topics rewards_history ?env0 = Inr (topics', env1)"
    by (auto simp: loop_body_def Let_def split: sum.splits)
  with assms obtain rh1 env2 where
    r: "round_step ext topics' rewards_history env1 = Inr (rh1, env2)"
    by (auto simp: loop_body_def Let_def split: sum.splits)
  with assms g have
    e: "evolution_check ext evolution_interval i rh1 env2 = Inr (rewards_history', env')"
    by (auto simp: loop_body_def Let_def split: sum.splits)
  from emit_progress_outcome [of socketio "i + 1" num_rounds "env\<lparr>current_round_number := i + 1\<rparr>"]
  obtain n0 where
    n0: "calls ?env0 = calls env @ n0" "synthesize_calls n0 = []" "teacher_evolve_calls n0 = []"
        "student_evolve_calls n0 = []" "q_learner ?env0 = q_learner env"
        "simulation_results ?env0 = simulation_results env"
    by auto
  from growth_check_outcome [OF g] obtain n1 where
    n1: "calls env1 = calls ?env0 @ n1"
        "length (synthesize_calls n1) = (if growth_condition evolution_interval i then 1 else 0)"
        "teacher_evolve_calls n1 = []" "student_evolve_calls n1 = []"
        "topics' = topics
          \<or> (\<exists>t. topics' = topics @ [t] \<and> t \<noteq> [] \<and> \<not> error_marker t \<and> t \<notin> set topics
                 \<and> (\<exists>cur summ. synthesize_calls n1 = [(cur, summ, t)]))"
        "q_learner env1 = q_learner ?env0"
        "simulation_results env1 = simulation_results ?env0"
    by blast
  from round_step_outcome [OF r] obtain n2 recs where
    n2: "calls env2 = calls env1 @ n2"
        "synthesize_calls n2 = []" "teacher_evolve_calls n2 = []" "student_evolve_calls n2 = []"
        "simulation_results env2 = simulation_results env1 @ recs"
        "length recs \<le> 1"
        "rh1 = rewards_history @ map reward recs"
        "actions (q_learner env2) = actions (q_learner env1)"
    by blast
  from evolution_check_outcome [OF e] obtain n3 where
    n3: "calls env' = calls env2 @ n3"
        "synthesize_calls n3 = []"
        "if evolution_condition evolution_interval i \<and> rh1 \<noteq> []
             then rewards_history' = [] \<and> n3 = [Teacher_Evolve (mean rh1), Student_Evolve (mean rh1)]
             else rewards_history' = rh1 \<and> n3 = []"
        "q_learner env' = q_learner env2"
        "simulation_results env' = simulation_results env2"
    by blast
  let ?new = "n0 @ n1 @ n2 @ n3"
  have 1: "calls env' = calls env @ ?new"
    using n0(1) n1(1) n2(1) n3(1) by simp
  have 2: "length (synthesize_calls ?new) = (if growth_condition evolution_interval i then 1 else 0)"
    using n0(2) n1(2) n2(2) n3(2) by (simp add: synthesize_calls_append)
  have 3: "simulation_results env' = simulation_results env @ recs"
    using n0(6) n1(7) n2(5) n3(5) by simp
  have 4: "if evolution_condition evolution_interval i \<and> rewards_history @ map reward recs \<noteq> []
        then rewards_history' = []
           \<and> teacher_evolve_calls ?new = [mean (rewards_history @ map reward recs)]
           \<and> student_evolve_calls ?new = [mean (rewards_history @ map reward recs)]
        else rewards_history' = rewards_history @ map reward recs
           \<and> teacher_evolve_calls ?new = [] \<and> student_evolve_calls ?new = []"
  proof (cases "evolution_condition evolution_interval i \<and> rh1 \<noteq> []")
    case True
    with n3(3) have "rewards_history' = []" "n3 = [Teacher_Evolve (mean rh1), Student_Evolve (mean rh1)]"
      by simp_all
    with True n0(3,4) n1(3,4) n2(3,4,7) show ?thesis
      by (simp add: teacher_evolve_calls_append student_evolve_calls_append)
  next
    case False
    with n3(3) have "rewards_history' = rh1" "n3 = []"
      by simp_all
    with False n0(3,4) n1(3,4) n2(3,4,7) show ?thesis
      by (simp add: teacher_evolve_calls_append student_evolve_calls_append)
  qed
  have 5: "actions (q_learner env') = actions (q_learner env)"
    using n0(5) n1(6) n2(8) n3(4) by simp
  have sc: "synthesize_calls ?new = synthesize_calls n1"
    using n0(2) n2(2) n3(2) by (simp add: synthesize_calls_append)
  have 6: "topics' = topics
        \<or> (\<exists>t. topics' = topics @ [t] \<and> t \<noteq> [] \<and> \<not> error_marker t \<and> t \<notin> set topics
               \<and> (\<exists>cur summ. synthesize_calls ?new = [(cur, summ, t)]))"
    unfolding sc by (rule n1(5))
  show ?thesis
    by (intro exI [of _ ?new] exI [of _ recs] conjI) (fact 1 2 3 n2(6) 4 6 5)+
qed

lemma loop_body_total:
  assumes ei: "evolution_interval \<noteq> 0" "i = 0 \<or> evolution_interval div 2 \<noteq> 0"
    and t: "topics \<noteq> []" and a: "actions (q_learner env) \<noteq> []"
  shows "\<exists>st'. loop_body ext num_rounds evolution_interval socketio i (topics, rewards_history, env)
                 = Inr st'"
proof -
  let ?env0 = "emit_progress socketio (i + 1) num_rounds (env\<lparr>current_round_number := i + 1\<rparr>)"
  have "\<exists>topics1 env1.
          growth_check ext evolution_interval i topics rewards_history ?env0 = Inr (topics1, env1)"
  proof (cases "growth_condition evolution_interval i")
    case True
    obtain ts e1 where "synthesize_step ext topics rewards_history ?env0 = (ts, e1)"
      by (cases "synthesize_step ext topics rewards_history ?env0")
    with True ei(2) show ?thesis
      by (auto simp: growth_check_def growth_due_eq)
  next
    case False
    with ei(2) show ?thesis
      by (auto simp: growth_check_def growth_due_eq)
  qed
  then obtain topics1 env1 where
    g: "growth_check ext evolution_interval i topics rewards_history ?env0 = Inr (topics1, env1)"
    by blast
  from growth_check_outcome [OF g] t have t1: "topics1 \<noteq> []"
    by auto
  from growth_check_outcome [OF g] emit_progress_outcome [of socketio "i + 1" num_rounds
         "env\<lparr>current_round_number := i + 1\<rparr>"] a
  have a1: "actions (q_learner env1) \<noteq> []"
    by auto
  from py_random_choice_total [OF t1, of ext "world env1"] obtain tp w0 where
    c: "py_random_choice ext topics1 (world env1) = Inr (tp, w0)"
    by blast
  from a1 have "actions (q_learner (env1\<lparr>world := w0\<rparr>)) \<noteq> []"
    by simp
  from run_interaction_round_total [OF this, of ext tp "''medium''"] obtain res env2 where
    r: "run_interaction_round ext tp ''medium'' (env1\<lparr>world := w0\<rparr>) = Inr (res, env2)"
    by blast
  from c r obtain rh1 where rs: "round_step ext topics1 rewards_history env1 = Inr (rh1, env2)"
    by (cases res) (simp_all add: round_step_def)
  from ei(1) have "\<exists>rh2 env3. evolution_check ext evolution_interval i rh1 env2 = Inr (rh2, env3)"
    by (simp add: evolution_check_def Let_def)
  then obtain rh2 env3 where
    e: "evolution_check ext evolution_interval i rh1 env2 = Inr (rh2, env3)"
    by blast
  from g rs e show ?thesis
    by (simp add: loop_body_def Let_def)
qed

lemma loop_body_growth_error:
  assumes "growth_due evolution_interval i = Inl err"
  shows "loop_body ext num_rounds evolution_interval socketio i st = Inl err"
  using assms by (cases st) (simp add: loop_body_def growth_check_def Let_def)

text \<open>The contract of the loop over any list of round indices.\<close>

lemma run_rounds_outcome:
  assumes "run_rounds ext num_rounds evolution_interval socketio rounds (topics, rewards_history, env)
             = Inr (topics', rewards_history', env')"
  shows "\<exists>new recs. calls env' = calls env @ new
     \<and> length (synthesize_calls new) = length (filter (growth_condition evolution_interval) rounds)
     \<and> simulation_results env' = simulation_results env @ recs \<and> length recs \<le> length rounds
     \<and> teacher_evolve_calls new = student_evolve_calls new
     \<and> length (teacher_evolve_calls new) \<le> length (filter (evolution_condition evolution_interval) rounds)
     \<and> (length recs = length rounds \<longrightarrow>
          length (teacher_evolve_calls new)
            = length (filter (evolution_condition evolution_interval) rounds))
     \<and> prefix topics topics'
     \<and> (distinct topics \<longrightarrow> distinct topics')
     \<and> (\<forall>t \<in> set topics' - set topics. t \<noteq> [] \<and> \<not> error_marker t)
     \<and> actions (q_learner env') = actions (q_learner env)"
  using assms
proof (induction rounds arbitrary: topics rewards_history env)
  case Nil
  then show ?case
    by (intro exI [of _ "[]"]) simp
next
  case (Cons i rest)
  from Cons.prems obtain topics1 rh1 env1 where
    b: "loop_body ext num_rounds evolution_interval socketio i (topics, rewards_history, env)
          = Inr (topics1, rh1, env1)"
    and r: "run_rounds ext num_rounds evolution_interval socketio rest (topics1, rh1, env1)
          = Inr (topics', rewards_history', env')"
    by (auto split: sum.splits)
  from loop_body_outcome [OF b] obtain n1 recs1 where
    n1: "calls env1 = calls env @ n1"
        "length (synthesize_calls n1) = (if growth_condition evolution_interval i then 1 else 0)"
        "simulation_results env1 = simulation_results env @ recs1" "length recs1 \<le> 1"
        "if evolution_condition evolution_interval i \<and> rewards_history @ map reward recs1 \<noteq> []
         then rh1 = []
           \<and> teacher_evolve_calls n1 = [mean (rewards_history @ map reward recs1)]
           \<and> student_evolve_calls n1 = [mean (rewards_history @ map reward recs1)]
         else rh1 = rewards_history @ map reward recs1
           \<and> teacher_evolve_calls n1 = [] \<and> student_evolve_calls n1 = []"
        "topics1 = topics
          \<or> (\<exists>t. topics1 = topics @ [t] \<and> t \<noteq> [] \<and> \<not> error_marker t \<and> t \<notin> set topics)"
        "actions (q_learner env1) = actions (q_learner env)"
    by blast
  from Cons.IH [OF r] obtain n2 recs2 where
    n2: "calls env' = calls env1 @ n2"
        "length (synthesize_calls n2) = length (filter (growth_condition evolution_interval) rest)"
        "simulation_results env' = simulation_results env1 @ recs2" "length recs2 \<le> length rest"
        "teacher_evolve_calls n2 = student_evolve_calls n2"
        "length (teacher_evolve_calls n2) \<le> length (filter (evolution_condition evolution_interval) rest)"
        "length recs2 = length rest \<longrightarrow>
          length (teacher_evolve_calls n2)
            = length (filter (evolution_condition evolution_interval) rest)"
        "prefix topics1 topics'"
        "distinct topics1 \<longrightarrow> distinct topics'"
        "\<forall>t \<in> set topics' - set topics1. t \<noteq> [] \<and> \<not> error_marker t"
        "actions (q_learner env') = actions (q_learner env1)"
    by blast
  have ev1: "teacher_evolve_calls n1 = student_evolve_calls n1"
    "length (teacher_evolve_calls n1) \<le> (if evolution_condition evolution_interval i then 1 else 0)"
    "length recs1 = 1 \<longrightarrow>
       length (teacher_evolve_calls n1) = (if evolution_condition evolution_interval i then 1 else 0)"
    using n1(5) by (auto split: if_splits)
  let ?new = "n1 @ n2" and ?recs = "recs1 @ recs2"
  have 1: "calls env' = calls env @ ?new"
    using n1(1) n2(1) by simp
  have 2: "length (synthesize_calls ?new)
            = length (filter (growth_condition evolution_interval) (i # rest))"
    using n1(2) n2(2) by (simp add: synthesize_calls_append)
  have 3: "simulation_results env' = simulation_results env @ ?recs"
    using n1(3) n2(3) by simp
  have 4: "length ?recs \<le> length (i # rest)"
    using n1(4) n2(4) by simp
  have 5: "teacher_evolve_calls ?new = student_evolve_calls ?new"
    using ev1(1) n2(5) by (simp add: teacher_evolve_calls_append student_evolve_calls_append)
  have 6: "length (teacher_evolve_calls ?new)
            \<le> length (filter (evolution_condition evolution_interval) (i # rest))"
    using ev1(2) n2(6) by (auto simp: teacher_evolve_calls_append split: if_splits)
  have 7: "length ?recs = length (i # rest) \<longrightarrow>
          length (teacher_evolve_calls ?new)
            = length (filter (evolution_condition evolution_interval) (i # rest))"
  proof
    assume "length ?recs = length (i # rest)"
    with n1(4) n2(4) have "length recs1 = 1" "length recs2 = length rest"
      by simp_all
    with ev1(3) n2(7) show "length (teacher_evolve_calls ?new)
            = length (filter (evolution_condition evolution_interval) (i # rest))"
      by (auto simp: teacher_evolve_calls_append split: if_splits)
  qed
  have 8: "prefix topics topics'"
    using n1(6) n2(8) by (auto elim: prefix_order.trans [rotated] simp: prefix_def)
  have 9: "distinct topics \<longrightarrow> distinct topics'"
    using n1(6) n2(9) by auto
  have 10: "\<forall>t \<in> set topics' - set topics. t \<noteq> [] \<and> \<not> error_marker t"
    using n1(6) n2(10) by auto
  have 11: "actions (q_learner env') = actions (q_learner env)"
    using n1(7) n2(11) by simp
  show ?case
    by (intro exI [of _ ?new] exI [of _ ?recs] conjI) (fact 1 2 3 4 5 6 7 8 9 10 11)+
qed

lemma run_rounds_total:
  assumes "2 \<le> evolution_interval" and "topics \<noteq> []" and "actions (q_learner env) \<noteq> []"
  shows "\<exists>st'. run_rounds ext num_rounds evolution_interval socketio rounds
                 (topics, rewards_history, env) = Inr st'"
  using assms(2,3)
proof (induction rounds arbitrary: topics rewards_history env)
  case Nil
  show ?case by simp
next
  case (Cons i rest)
  from assms(1) have "evolution_interval \<noteq> 0" "i = 0 \<or> evolution_interval div 2 \<noteq> 0"
    using half_interval_nonzero [of evolution_interval] by simp_all
  from loop_body_total [OF this Cons.prems, of ext num_rounds socketio rewards_history]
  obtain topics1 rh1 env1 where
    b: "loop_body ext num_rounds evolution_interval socketio i (topics, rewards_history, env)
          = Inr (topics1, rh1, env1)"
    by (metis prod_cases3)
  from loop_body_outcome [OF b] Cons.prems have "topics1 \<noteq> []" "actions (q_learner env1) \<noteq> []"
    by auto
  from Cons.IH [OF this, of rh1] b show ?case
    by simp
qed

lemma run_simulation_unfold:
  "run_simulation ext num_rounds topics evolution_interval socketio env = Inr (results, topics', env')
   \<longleftrightarrow> results = simulation_results env'
       \<and> (\<exists>rh'. run_rounds ext num_rounds evolution_interval socketio [0..<nat num_rounds]
                   (topics, [], env) = Inr (topics', rh', env'))"
  by (auto simp: run_simulation_def split: sum.splits)

lemma run_simulation_total:
  assumes "2 \<le> evolution_interval" and "topics \<noteq> []" and "actions (q_learner env) \<noteq> []"
  shows "\<exists>results topics' env'.
           run_simulation ext num_rounds topics evolution_interval socketio env
             = Inr (results, topics', env')"
proof -
  from run_rounds_total [OF assms, of ext num_rounds socketio "[0..<nat num_rounds]" "[]"]
  obtain topics' rh' env' where
    "run_rounds ext num_rounds evolution_interval socketio [0..<nat num_rounds] (topics, [], env)
       = Inr (topics', rh', env')"
    by (metis prod_cases3)
  then show ?thesis
    by (simp add: run_simulation_def)
qed

lemma run_simulation_interval_one:
  assumes "topics \<noteq> []" and "actions (q_learner env) \<noteq> []" and "2 \<le> num_rounds"
  shows "run_simulation ext num_rounds topics 1 socketio env = Inl ZeroDivisionError"
proof -
  from assms(3) have "[0..<nat num_rounds] = 0 # Suc 0 # [Suc (Suc 0)..<nat num_rounds]"
    by (simp add: upt_conv_Cons)
  moreover
  from loop_body_total [of 1 0 topics env ext num_rounds socketio "[]"] assms(1,2)
  obtain st1 where "loop_body ext num_rounds 1 socketio 0 (topics, [], env) = Inr st1"
    by auto
  moreover
  have "growth_due 1 (Suc 0) = Inl ZeroDivisionError"
    by (simp add: growth_due_def)
  then have "loop_body ext num_rounds 1 socketio (Suc 0) st1 = Inl ZeroDivisionError"
    by (rule loop_body_growth_error)
  ultimately show ?thesis
    by (simp add: run_simulation_def)
qed

text \<open>
  Claim C5, as the code has it. For every evolution interval of at least \<open>2\<close> the
  curriculum-growth check of round index \<open>i\<close> is evaluated without a division by zero and
  holds exactly when \<open>i > 0\<close> and \<open>i mod (evolution_interval div 2) = 0\<close>; the teacher is
  asked for a new topic exactly then, once. A run with a non-empty curriculum and a
  non-empty action set passes through every round index and makes one such call for each
  index that satisfies the condition. For the interval \<open>2\<close> the condition is \<open>i > 0\<close>.
\<close>

theorem growth_check_cadence:
  assumes "2 \<le> evolution_interval"
  shows "growth_due evolution_interval i
           = Inr (i > 0 \<and> int i mod (evolution_interval div 2) = 0)
       \<and> evolution_interval div 2 \<noteq> 0
       \<and> (\<exists>topics' env'.
             growth_check ext evolution_interval i topics rewards_history env = Inr (topics', env')
           \<and> length (synthesize_calls (drop (length (calls env)) (calls env')))
               = (if i > 0 \<and> int i mod (evolution_interval div 2) = 0 then 1 else 0))
       \<and> (topics \<noteq> [] \<and> actions (q_learner env) \<noteq> [] \<longrightarrow>
            (\<exists>results topics' env'.
               run_simulation ext num_rounds topics evolution_interval socketio env
                 = Inr (results, topics', env')
             \<and> length (synthesize_calls (drop (length (calls env)) (calls env')))
                 = length (filter (\<lambda>i. i > 0 \<and> int i mod (evolution_interval div 2) = 0)
                             [0..<nat num_rounds])))
       \<and> (evolution_interval = 2 \<longrightarrow>
            growth_due evolution_interval i = Inr (i > 0))"
proof -
  have gc: "growth_condition evolution_interval = (\<lambda>i. i > 0 \<and> int i mod (evolution_interval div 2) = 0)"
    by (rule ext) (simp add: growth_condition_def)
  have 1: "growth_due evolution_interval i
           = Inr (i > 0 \<and> int i mod (evolution_interval div 2) = 0)"
    using growth_due_defined [OF assms, of i] by (simp add: growth_condition_def)
  have 2: "evolution_interval div 2 \<noteq> 0"
    by (rule half_interval_nonzero [OF assms])
  have 3: "\<exists>topics' env'.
             growth_check ext evolution_interval i topics rewards_history env = Inr (topics', env')
           \<and> length (synthesize_calls (drop (length (calls env)) (calls env')))
               = (if i > 0 \<and> int i mod (evolution_interval div 2) = 0 then 1 else 0)"
  proof -
    have "\<exists>topics' env'.
            growth_check ext evolution_interval i topics rewards_history env = Inr (topics', env')"
      unfolding growth_check_def 1
      by (cases "synthesize_step ext topics rewards_history env") auto
    then obtain topics' env' where
      g: "growth_check ext evolution_interval i topics rewards_history env = Inr (topics', env')"
      by blast
    from growth_check_outcome [OF g] have
      "length (synthesize_calls (drop (length (calls env)) (calls env')))
               = (if i > 0 \<and> int i mod (evolution_interval div 2) = 0 then 1 else 0)"
      by (auto simp: growth_condition_def)
    with g show ?thesis
      by blast
  qed
  have 4: "\<exists>results topics' env'.
               run_simulation ext num_rounds topics evolution_interval socketio env
                 = Inr (results, topics', env')
             \<and> length (synthesize_calls (drop (length (calls env)) (calls env')))
                 = length (filter (\<lambda>i. i > 0 \<and> int i mod (evolution_interval div 2) = 0)
                             [0..<nat num_rounds])"
    if "topics \<noteq> [] \<and> actions (q_learner env) \<noteq> []"
  proof -
    from that run_simulation_total [OF assms, of topics env ext num_rounds socketio]
    obtain results topics' env' where
      r: "run_simulation ext num_rounds topics evolution_interval socketio env
                 = Inr (results, topics', env')"
      by blast
    then obtain rh' where "run_rounds ext num_rounds evolution_interval socketio [0..<nat num_rounds]
                   (topics, [], env) = Inr (topics', rh', env')"
      unfolding run_simulation_unfold by blast
    from run_rounds_outcome [OF this] have
      "length (synthesize_calls (drop (length (calls env)) (calls env')))
                 = length (filter (\<lambda>i. i > 0 \<and> int i mod (evolution_interval div 2) = 0)
                             [0..<nat num_rounds])"
      unfolding gc by auto
    with r show ?thesis
      by blast
  qed
  have 5: "evolution_interval = 2 \<longrightarrow> growth_due evolution_interval i = Inr (i > 0)"
    by (simp add: growth_due_def)
  from 1 2 3 4 5 show ?thesis
    by blast
qed


theorem growth_check_cadence_witness:
  "(2::int) \<le> 2 \<and> (2::int) \<le> 5
   \<and> growth_due 2 0 = Inr False \<and> growth_due 2 1 = Inr True \<and> growth_due 2 3 = Inr True
   \<and> growth_due 5 2 = Inr True \<and> growth_due 5 3 = Inr False
   \<and> (\<exists>results topics' env'.
         run_simulation test_collaborators 4 [''topic1'', ''topic2''] 2 None test_env
           = Inr (results, topics', env')
       \<and> length (synthesize_calls (drop (length (calls test_env)) (calls env'))) = 3)"
proof -
  have h2: "(2::int) \<le> 2" and h5: "(2::int) \<le> 5"
    by simp_all
  have t: "[''topic1'', ''topic2''] \<noteq> [] \<and> actions (q_learner test_env) \<noteq> []"
    by (simp add: test_actions_def)
  have n: "length (filter (\<lambda>i. i > 0 \<and> int i mod (2 div 2) = 0) [0..<nat 4]) = 3"
    by code_simp
  from growth_check_cadence [OF h2, of 0 test_collaborators "[]" "[]" test_env 0 None] have a: "growth_due 2 0 = Inr False"
    by simp
  from growth_check_cadence [OF h2, of 1 test_collaborators "[]" "[]" test_env 0 None] have b: "growth_due 2 1 = Inr True"
    by simp
  from growth_check_cadence [OF h2, of 3 test_collaborators "[]" "[]" test_env 0 None] have c: "growth_due 2 3 = Inr True"
    by simp
  from growth_check_cadence [OF h5, of 2 test_collaborators "[]" "[]" test_env 0 None] have d: "growth_due 5 2 = Inr True"
    by simp
  from growth_check_cadence [OF h5, of 3 test_collaborators "[]" "[]" test_env 0 None] have e: "growth_due 5 3 = Inr False"
    by simp
  from growth_check_cadence [OF h2, of 0 test_collaborators "[''topic1'', ''topic2'']" "[]"
         test_env 4 None] t n
  have r: "\<exists>results topics' env'.
         run_simulation test_collaborators 4 [''topic1'', ''topic2''] 2 None test_env
           = Inr (results, topics', env')
       \<and> length (synthesize_calls (drop (length (calls test_env)) (calls env'))) = 3"
    by simp
  from h2 h5 a b c d e r show ?thesis
    by blast
qed

text \<open>
  With the evolution interval \<open>1\<close> the divisor \<open>evolution_interval div 2\<close> is \<open>0\<close>: the
  check of round index \<open>1\<close> raises \<^verbatim>\<open>ZeroDivisionError\<close>, and so does a run of two
  rounds.
\<close>

theorem growth_check_interval_one_counterexample:
  "growth_due 1 1 = Inl ZeroDivisionError
   \<and> run_simulation test_collaborators 2 [''topic1'', ''topic2''] 1 None test_env
        = Inl ZeroDivisionError"
proof -
  have "growth_due 1 1 = Inl ZeroDivisionError"
    by (simp add: growth_due_def)
  moreover have "run_simulation test_collaborators 2 [''topic1'', ''topic2''] 1 None test_env
        = Inl ZeroDivisionError"
    by (rule run_simulation_interval_one) (simp_all add: test_actions_def)
  ultimately show ?thesis
    by blast
qed

lemma evolution_check_unfold:
  assumes "evolution_interval \<noteq> 0"
  shows "evolution_check ext evolution_interval i rewards_history env =
     Inr (if (int i + 1) mod evolution_interval = 0 \<and> rewards_history \<noteq> []
          then ([], env\<lparr>world := student_evolve (mean rewards_history)
                                    (teacher_evolve ext (mean rewards_history) (world env)),
                         calls := calls env @ [Teacher_Evolve (mean rewards_history),
                                               Student_Evolve (mean rewards_history)]\<rparr>)
          else (rewards_history, env))"
  using assms by (simp add: evolution_check_def Let_def mean_def)

text \<open>
  Claim C6. In every pass through the loop body, \<open>evolve\<close> is invoked on the teacher and
  then on the student exactly when \<open>(i + 1) mod evolution_interval = 0\<close> and the window,
  after the reward of the round has been appended, is non-empty; the argument of both calls
  is the mean of that window, and the window is empty afterwards. Otherwise neither hook is
  called and the window is kept. In a run of \<open>4\<close> rounds with the interval \<open>2\<close> in which
  every round completes (four records are appended to the results), \<open>evolve\<close> is invoked
  exactly twice on each collaborator.
\<close>

theorem evolution_cadence:
  "(evolution_interval \<noteq> 0 \<longrightarrow>
      evolution_check ext evolution_interval i window env =
        Inr (if (int i + 1) mod evolution_interval = 0 \<and> window \<noteq> []
             then ([], env\<lparr>world := student_evolve (sum_list window / real (length window))
                                       (teacher_evolve ext (sum_list window / real (length window))
                                          (world env)),
                            calls := calls env @
                              [Teacher_Evolve (sum_list window / real (length window)),
                               Student_Evolve (sum_list window / real (length window))]\<rparr>)
             else (window, env)))
   \<and> (\<forall>topics' rewards_history' env'.
        loop_body ext num_rounds evolution_interval socketio i (topics, rewards_history, env)
          = Inr (topics', rewards_history', env') \<longrightarrow>
        (\<exists>recs. simulation_results env' = simulation_results env @ recs \<and> length recs \<le> 1
           \<and> (if (int i + 1) mod evolution_interval = 0 \<and> rewards_history @ map reward recs \<noteq> []
               then rewards_history' = []
                 \<and> teacher_evolve_calls (drop (length (calls env)) (calls env'))
                     = [mean (rewards_history @ map reward recs)]
                 \<and> student_evolve_calls (drop (length (calls env)) (calls env'))
                     = [mean (rewards_history @ map reward recs)]
               else rewards_history' = rewards_history @ map reward recs
                 \<and> teacher_evolve_calls (drop (length (calls env)) (calls env')) = []
                 \<and> student_evolve_calls (drop (length (calls env)) (calls env')) = [])))
   \<and> (\<forall>results topics' env'.
        run_simulation ext 4 topics 2 socketio env = Inr (results, topics', env')
        \<and> length (simulation_results env') = length (simulation_results env) + 4 \<longrightarrow>
        length (teacher_evolve_calls (drop (length (calls env)) (calls env'))) = 2
        \<and> length (student_evolve_calls (drop (length (calls env)) (calls env'))) = 2)"
proof -
  have 1: "evolution_interval \<noteq> 0 \<longrightarrow>
      evolution_check ext evolution_interval i window env =
        Inr (if (int i + 1) mod evolution_interval = 0 \<and> window \<noteq> []
             then ([], env\<lparr>world := student_evolve (sum_list window / real (length window))
                                       (teacher_evolve ext (sum_list window / real (length window))
                                          (world env)),
                            calls := calls env @
                              [Teacher_Evolve (sum_list window / real (length window)),
                               Student_Evolve (sum_list window / real (length window))]\<rparr>)
             else (window, env))"
    using evolution_check_unfold [of evolution_interval ext i window env]
    by (simp add: mean_def)
  have 2: "\<exists>recs. simulation_results env' = simulation_results env @ recs \<and> length recs \<le> 1
           \<and> (if (int i + 1) mod evolution_interval = 0 \<and> rewards_history @ map reward recs \<noteq> []
               then rewards_history' = []
                 \<and> teacher_evolve_calls (drop (length (calls env)) (calls env'))
                     = [mean (rewards_history @ map reward recs)]
                 \<and> student_evolve_calls (drop (length (calls env)) (calls env'))
                     = [mean (rewards_history @ map reward recs)]
               else rewards_history' = rewards_history @ map reward recs
                 \<and> teacher_evolve_calls (drop (length (calls env)) (calls env')) = []
                 \<and> student_evolve_calls (drop (length (calls env)) (calls env')) = [])"
    if "loop_body ext num_rounds evolution_interval socketio i (topics, rewards_history, env)
          = Inr (topics', rewards_history', env')"
    for topics' rewards_history' env'
  proof -
    from loop_body_outcome [OF that] obtain new recs where
      n: "calls env' = calls env @ new"
         "simulation_results env' = simulation_results env @ recs" "length recs \<le> 1"
         "if evolution_condition evolution_interval i \<and> rewards_history @ map reward recs \<noteq> []
          then rewards_history' = []
             \<and> teacher_evolve_calls new = [mean (rewards_history @ map reward recs)]
             \<and> student_evolve_calls new = [mean (rewards_history @ map reward recs)]
          else rewards_history' = rewards_history @ map reward recs
             \<and> teacher_evolve_calls new = [] \<and> student_evolve_calls new = []"
      by blast
    from n(1) have d: "drop (length (calls env)) (calls env') = new"
      by simp
    from n(2,3,4) show ?thesis
      unfolding d evolution_condition_def by (intro exI [of _ recs]) simp
  qed
  have 3: "length (teacher_evolve_calls (drop (length (calls env)) (calls env'))) = 2
        \<and> length (student_evolve_calls (drop (length (calls env)) (calls env'))) = 2"
    if "run_simulation ext 4 topics 2 socketio env = Inr (results, topics', env')
        \<and> length (simulation_results env') = length (simulation_results env) + 4"
    for results topics' env'
  proof -
    from that obtain rh' where
      r: "run_rounds ext 4 2 socketio [0..<nat 4] (topics, [], env) = Inr (topics', rh', env')"
      unfolding run_simulation_unfold by blast
    from run_rounds_outcome [OF r] obtain new recs where
      n: "calls env' = calls env @ new"
         "simulation_results env' = simulation_results env @ recs"
         "teacher_evolve_calls new = student_evolve_calls new"
         "length recs = length [0..<nat 4] \<longrightarrow>
            length (teacher_evolve_calls new) = length (filter (evolution_condition 2) [0..<nat 4])"
      by blast
    from n(1) have d: "drop (length (calls env)) (calls env') = new"
      by simp
    from that n(2) have "length recs = length [0..<nat 4]"
      by simp
    moreover have "length (filter (evolution_condition 2) [0..<nat 4]) = 2"
      unfolding evolution_condition_def by code_simp
    ultimately show ?thesis
      unfolding d using n(3,4) by simp
  qed
  from 1 2 3 show ?thesis
    by blast
qed


lemma test_run_records_four_rounds:
  "case run_simulation test_collaborators 4 [''topic1'', ''topic2''] 2 None test_env of
     Inl err \<Rightarrow> False
   | Inr (results, topics', env') \<Rightarrow>
       length (simulation_results env') = 4
     \<and> topics' = [''topic1'', ''topic2'', ''new_topic_A'']
     \<and> teacher_evolve_calls (calls env') = [1, 1]"
  by code_simp

theorem evolution_cadence_witness:
  "(\<exists>env'. evolution_check test_collaborators 2 1 [1, 1 / 2] test_env = Inr ([], env')
        \<and> calls env' = [Teacher_Evolve (3 / 4), Student_Evolve (3 / 4)])
   \<and> evolution_check test_collaborators 2 0 [1] test_env = Inr ([1], test_env)
   \<and> evolution_check test_collaborators 2 1 [] test_env = Inr ([], test_env)
   \<and> (\<exists>topics' rewards_history' env'.
        loop_body test_collaborators 4 2 None 0 ([''topic1'', ''topic2''], [], test_env)
          = Inr (topics', rewards_history', env')
      \<and> teacher_evolve_calls (drop (length (calls test_env)) (calls env')) = []
      \<and> student_evolve_calls (drop (length (calls test_env)) (calls env')) = [])
   \<and> (\<exists>results topics' env'.
        run_simulation test_collaborators 4 [''topic1'', ''topic2''] 2 None test_env
          = Inr (results, topics', env')
      \<and> length (simulation_results env') = length (simulation_results test_env) + 4
      \<and> length (teacher_evolve_calls (drop (length (calls test_env)) (calls env'))) = 2
      \<and> length (student_evolve_calls (drop (length (calls test_env)) (calls env'))) = 2)"
proof -
  have nz: "(2::int) \<noteq> 0"
    by simp
  \<comment> \<open>the check alone\<close>
  from evolution_cadence [of 2 test_collaborators 1 "[1, 1 / 2]" test_env 4 None
         "[''topic1'', ''topic2'']" "[]"] nz
  have "evolution_check test_collaborators 2 1 [1, 1 / 2] test_env =
          Inr ([], test_env\<lparr>world := student_evolve (3 / 4)
                                       (teacher_evolve test_collaborators (3 / 4) (world test_env)),
                            calls := calls test_env @
                              [Teacher_Evolve (3 / 4), Student_Evolve (3 / 4)]\<rparr>)"
    by simp
  then have a: "\<exists>env'. evolution_check test_collaborators 2 1 [1, 1 / 2] test_env = Inr ([], env')
        \<and> calls env' = [Teacher_Evolve (3 / 4), Student_Evolve (3 / 4)]"
    by simp
  from evolution_cadence [of 2 test_collaborators 0 "[1]" test_env 4 None
         "[''topic1'', ''topic2'']" "[]"] nz
  have b: "evolution_check test_collaborators 2 0 [1] test_env = Inr ([1], test_env)"
    by simp
  from evolution_cadence [of 2 test_collaborators 1 "[]" test_env 4 None
         "[''topic1'', ''topic2'']" "[]"] nz
  have c: "evolution_check test_collaborators 2 1 [] test_env = Inr ([], test_env)"
    by simp
  \<comment> \<open>the first pass through the loop body\<close>
  note cadence = evolution_cadence [of 2 test_collaborators 0 "[]" test_env 4 None
         "[''topic1'', ''topic2'']" "[]"]
  from loop_body_total [of 2 0 "[''topic1'', ''topic2'']" test_env test_collaborators 4 None "[]"]
  obtain topics1 rh1 env1 where
    lb: "loop_body test_collaborators 4 2 None 0 ([''topic1'', ''topic2''], [], test_env)
          = Inr (topics1, rh1, env1)"
    by (auto simp: test_actions_def)
  from cadence [THEN conjunct2, THEN conjunct1, rule_format, OF lb]
  have "teacher_evolve_calls (drop (length (calls test_env)) (calls env1)) = []"
    "student_evolve_calls (drop (length (calls test_env)) (calls env1)) = []"
    by auto
  with lb have d: "\<exists>topics' rewards_history' env'.
        loop_body test_collaborators 4 2 None 0 ([''topic1'', ''topic2''], [], test_env)
          = Inr (topics', rewards_history', env')
      \<and> teacher_evolve_calls (drop (length (calls test_env)) (calls env')) = []
      \<and> student_evolve_calls (drop (length (calls test_env)) (calls env')) = []"
    by blast
  \<comment> \<open>the run of four rounds\<close>
  from run_simulation_total [of 2 "[''topic1'', ''topic2'']" test_env test_collaborators 4 None]
  obtain results topics' env' where
    r: "run_simulation test_collaborators 4 [''topic1'', ''topic2''] 2 None test_env
          = Inr (results, topics', env')"
    by (auto simp: test_actions_def)
  with test_run_records_four_rounds
  have l: "length (simulation_results env') = length (simulation_results test_env) + 4"
    by simp
  from cadence r l
  have "length (teacher_evolve_calls (drop (length (calls test_env)) (calls env'))) = 2
      \<and> length (student_evolve_calls (drop (length (calls test_env)) (calls env'))) = 2"
    by blast
  with r l have e: "\<exists>results topics' env'.
        run_simulation test_collaborators 4 [''topic1'', ''topic2''] 2 None test_env
          = Inr (results, topics', env')
      \<and> length (simulation_results env') = length (simulation_results test_env) + 4
      \<and> length (teacher_evolve_calls (drop (length (calls test_env)) (calls env'))) = 2
      \<and> length (student_evolve_calls (drop (length (calls test_env)) (calls env'))) = 2"
    by blast
  from a b c d e show ?thesis
    by blast
qed

lemma run_rounds_append:
  "run_rounds ext num_rounds evolution_interval socketio (xs @ ys) st =
     (case run_rounds ext num_rounds evolution_interval socketio xs st of
        Inl err \<Rightarrow> Inl err
      | Inr st' \<Rightarrow> run_rounds ext num_rounds evolution_interval socketio ys st')"
  by (induction xs arbitrary: st) (simp_all split: sum.splits)

text \<open>
  Claim C7. A pass through the loop body leaves the curriculum as it was or appends one
  topic to it: the text returned by the one call of \<^verbatim>\<open>synthesize_new_topic\<close> made in that
  pass, which is non-empty, carries no error marker and was not in the list. Hence
  between any two points \<open>j \<le> k\<close> of a run (after \<open>j\<close> and after \<open>k\<close> rounds) the curriculum
  only grows at its end: its length does not decrease, every topic added is non-empty and
  unmarked, and, when the initial curriculum has no duplicates, it has none at either
  point. The same holds between the start and the end of \<open>run_simulation\<close>.
\<close>

theorem curriculum_grows_without_duplicates:
  "(\<forall>rewards_history topics' rewards_history' env'.
      loop_body ext num_rounds evolution_interval socketio i (topics, rewards_history, env)
        = Inr (topics', rewards_history', env') \<longrightarrow>
      topics' = topics
      \<or> (\<exists>t. topics' = topics @ [t] \<and> t \<noteq> [] \<and> \<not> error_marker t \<and> t \<notin> set topics
             \<and> (\<exists>cur summ. synthesize_calls (drop (length (calls env)) (calls env'))
                                = [(cur, summ, t)])))
   \<and> (\<forall>j k topics_j rh_j env_j topics_k rh_k env_k.
        j \<le> k
        \<and> run_rounds ext num_rounds evolution_interval socketio [0..<j] (topics, [], env)
            = Inr (topics_j, rh_j, env_j)
        \<and> run_rounds ext num_rounds evolution_interval socketio [0..<k] (topics, [], env)
            = Inr (topics_k, rh_k, env_k) \<longrightarrow>
        prefix topics topics_j \<and> prefix topics_j topics_k
        \<and> length topics \<le> length topics_j \<and> length topics_j \<le> length topics_k
        \<and> (\<forall>t \<in> set topics_k - set topics. t \<noteq> [] \<and> \<not> error_marker t)
        \<and> (distinct topics \<longrightarrow> distinct topics_j \<and> distinct topics_k))
   \<and> (\<forall>results topics' env'.
        run_simulation ext num_rounds topics evolution_interval socketio env
          = Inr (results, topics', env') \<longrightarrow>
        prefix topics topics' \<and> length topics \<le> length topics'
        \<and> (\<forall>t \<in> set topics' - set topics. t \<noteq> [] \<and> \<not> error_marker t)
        \<and> (distinct topics \<longrightarrow> distinct topics'))"
proof -
  have 1: "topics' = topics
      \<or> (\<exists>t. topics' = topics @ [t] \<and> t \<noteq> [] \<and> \<not> error_marker t \<and> t \<notin> set topics
             \<and> (\<exists>cur summ. synthesize_calls (drop (length (calls env)) (calls env'))
                                = [(cur, summ, t)]))"
    if "loop_body ext num_rounds evolution_interval socketio i (topics, rewards_history, env)
        = Inr (topics', rewards_history', env')"
    for rewards_history topics' rewards_history' env'
  proof -
    from loop_body_outcome [OF that] obtain new where
      n: "calls env' = calls env @ new"
         "topics' = topics
          \<or> (\<exists>t. topics' = topics @ [t] \<and> t \<noteq> [] \<and> \<not> error_marker t \<and> t \<notin> set topics
                 \<and> (\<exists>cur summ. synthesize_calls new = [(cur, summ, t)]))"
      by blast
    from n(1) have "drop (length (calls env)) (calls env') = new"
      by simp
    with n(2) show ?thesis
      by simp
  qed
  have run: "prefix tps tps' \<and> length tps \<le> length tps'
        \<and> (\<forall>t \<in> set tps' - set tps. t \<noteq> [] \<and> \<not> error_marker t)
        \<and> (distinct tps \<longrightarrow> distinct tps')"
    if "run_rounds ext num_rounds evolution_interval socketio rounds (tps, rh, e)
          = Inr (tps', rh', e')"
    for rounds tps rh e tps' rh' e'
  proof -
    from run_rounds_outcome [OF that] have
      p: "prefix tps tps'" "distinct tps \<longrightarrow> distinct tps'"
         "\<forall>t \<in> set tps' - set tps. t \<noteq> [] \<and> \<not> error_marker t"
      by blast+
    from p(1) have "length tps \<le> length tps'"
      by (rule prefix_length_le)
    with p show ?thesis
      by blast
  qed
  have 2: "prefix topics topics_j \<and> prefix topics_j topics_k
        \<and> length topics \<le> length topics_j \<and> length topics_j \<le> length topics_k
        \<and> (\<forall>t \<in> set topics_k - set topics. t \<noteq> [] \<and> \<not> error_marker t)
        \<and> (distinct topics \<longrightarrow> distinct topics_j \<and> distinct topics_k)"
    if "j \<le> k
        \<and> run_rounds ext num_rounds evolution_interval socketio [0..<j] (topics, [], env)
            = Inr (topics_j, rh_j, env_j)
        \<and> run_rounds ext num_rounds evolution_interval socketio [0..<k] (topics, [], env)
            = Inr (topics_k, rh_k, env_k)"
    for j k topics_j rh_j env_j topics_k rh_k env_k
  proof -
    from that have jk: "j \<le> k"
      and rj: "run_rounds ext num_rounds evolution_interval socketio [0..<j] (topics, [], env)
            = Inr (topics_j, rh_j, env_j)"
      and rk: "run_rounds ext num_rounds evolution_interval socketio [0..<k] (topics, [], env)
            = Inr (topics_k, rh_k, env_k)"
      by blast+
    from jk have "[0..<k] = [0..<j] @ [j..<k]"
      by (metis le_add_diff_inverse upt_add_eq_append zero_le)
    with rk rj have rjk: "run_rounds ext num_rounds evolution_interval socketio [j..<k]
            (topics_j, rh_j, env_j) = Inr (topics_k, rh_k, env_k)"
      by (simp add: run_rounds_append)
    from run [OF rj] run [OF rjk] run [OF rk] show ?thesis
      by blast
  qed
  have 3: "prefix topics topics' \<and> length topics \<le> length topics'
        \<and> (\<forall>t \<in> set topics' - set topics. t \<noteq> [] \<and> \<not> error_marker t)
        \<and> (distinct topics \<longrightarrow> distinct topics')"
    if "run_simulation ext num_rounds topics evolution_interval socketio env
          = Inr (results, topics', env')"
    for results topics' env'
  proof -
    from that obtain rh' where
      "run_rounds ext num_rounds evolution_interval socketio [0..<nat num_rounds]
         (topics, [], env) = Inr (topics', rh', env')"
      unfolding run_simulation_unfold by blast
    from run [OF this] show ?thesis .
  qed
  from 1 2 3 show ?thesis
    by blast
qed

lemma test_run_two_rounds:
  "case run_rounds test_collaborators 4 2 None [0..<2] ([''topic1'', ''topic2''], [], test_env) of
     Inl err \<Rightarrow> False
   | Inr (topics', rh', env') \<Rightarrow> topics' = [''topic1'', ''topic2'', ''new_topic_A'']"
  by code_simp

lemma test_run_one_round:
  "case run_rounds test_collaborators 4 2 None [0..<1] ([''topic1'', ''topic2''], [], test_env) of
     Inl err \<Rightarrow> False
   | Inr (topics', rh', env') \<Rightarrow> topics' = [''topic1'', ''topic2'']"
  by code_simp

theorem curriculum_grows_without_duplicates_witness:
  "\<exists>rh1 env1 rh2 env2 results env4.
      (1::nat) \<le> 2
    \<and> run_rounds test_collaborators 4 2 None [0..<1] ([''topic1'', ''topic2''], [], test_env)
        = Inr ([''topic1'', ''topic2''], rh1, env1)
    \<and> loop_body test_collaborators 4 2 None 1 ([''topic1'', ''topic2''], rh1, env1)
        = Inr ([''topic1'', ''topic2'', ''new_topic_A''], rh2, env2)
    \<and> run_rounds test_collaborators 4 2 None [0..<2] ([''topic1'', ''topic2''], [], test_env)
        = Inr ([''topic1'', ''topic2'', ''new_topic_A''], rh2, env2)
    \<and> prefix [''topic1'', ''topic2''] [''topic1'', ''topic2'', ''new_topic_A'']
    \<and> distinct [''topic1'', ''topic2'', ''new_topic_A'']
    \<and> \<not> error_marker ''new_topic_A''
    \<and> run_simulation test_collaborators 4 [''topic1'', ''topic2''] 2 None test_env
        = Inr (results, [''topic1'', ''topic2'', ''new_topic_A''], env4)"
proof -
  have le: "(1::nat) \<le> 2"
    by simp
  from run_rounds_total [of 2 "[''topic1'', ''topic2'']" test_env test_collaborators 4 None
         "[0..<1]" "[]"] test_run_one_round
  obtain rh1 env1 where
    r1: "run_rounds test_collaborators 4 2 None [0..<1] ([''topic1'', ''topic2''], [], test_env)
        = Inr ([''topic1'', ''topic2''], rh1, env1)"
    by (auto simp: test_actions_def)
  from run_rounds_total [of 2 "[''topic1'', ''topic2'']" test_env test_collaborators 4 None
         "[0..<2]" "[]"] test_run_two_rounds
  obtain rh2 env2 where
    r2: "run_rounds test_collaborators 4 2 None [0..<2] ([''topic1'', ''topic2''], [], test_env)
        = Inr ([''topic1'', ''topic2'', ''new_topic_A''], rh2, env2)"
    by (auto simp: test_actions_def)
  have "[0..<2] = [0..<1] @ [1::nat]"
    by (simp add: upt_conv_Cons)
  with r1 r2 have
    lb: "loop_body test_collaborators 4 2 None 1 ([''topic1'', ''topic2''], rh1, env1)
        = Inr ([''topic1'', ''topic2'', ''new_topic_A''], rh2, env2)"
    by (simp add: run_rounds_append split: sum.splits)
  from run_simulation_total [of 2 "[''topic1'', ''topic2'']" test_env test_collaborators 4 None]
    test_run_records_four_rounds
  obtain results env4 where
    r4: "run_simulation test_collaborators 4 [''topic1'', ''topic2''] 2 None test_env
        = Inr (results, [''topic1'', ''topic2'', ''new_topic_A''], env4)"
    by (auto simp: test_actions_def)
  have d: "distinct [''topic1'', ''topic2'']"
    by simp
  \<comment> \<open>between the points after one and after two rounds\<close>
  from curriculum_grows_without_duplicates [of test_collaborators 4 2 None 0
         "[''topic1'', ''topic2'']" test_env] le r1 r2 d
  have p: "prefix [''topic1'', ''topic2''] [''topic1'', ''topic2'', ''new_topic_A'']
      \<and> distinct [''topic1'', ''topic2'', ''new_topic_A'']"
    by blast
  \<comment> \<open>the pass of round index 1, which appends the topic\<close>
  note pass = curriculum_grows_without_duplicates [of test_collaborators 4 2 None 1
         "[''topic1'', ''topic2'']" env1, THEN conjunct1, rule_format, OF lb]
  have ne: "[''topic1'', ''topic2'', ''new_topic_A''] \<noteq> [''topic1'', ''topic2'']"
    by simp
  from pass ne obtain t where
    t: "[''topic1'', ''topic2'', ''new_topic_A''] = [''topic1'', ''topic2''] @ [t]"
       "\<not> error_marker t"
    by blast
  from t(1) have "t = ''new_topic_A''"
    by simp
  with t(2) have n: "\<not> error_marker ''new_topic_A''"
    by simp
  \<comment> \<open>the whole run\<close>
  note whole = curriculum_grows_without_duplicates [of test_collaborators 4 2 None 0
         "[''topic1'', ''topic2'']" test_env, THEN conjunct2, THEN conjunct2, rule_format, OF r4]
  from whole d have "distinct [''topic1'', ''topic2'', ''new_topic_A'']"
    by blast
  with le r1 lb r2 p n r4 show ?thesis
    by (intro exI [of _ rh1] exI [of _ env1] exI [of _ rh2] exI [of _ env2]
          exI [of _ results] exI [of _ env4]) simp
qed

end
